theory Spec2Isabelle
  imports Complex_Main
begin

section \<open>The amp-access-fewcents vendor adapter\<close>

text \<open>
  A shallow embedding of \<^verbatim>\<open>extensions/amp-access-fewcents/0.1/fewcents-impl.js\<close>
  (class \<^verbatim>\<open>FewcentsVendor\<close>). Private members lose their trailing underscore
  (\<^verbatim>\<open>purchaseConfig_\<close> is \<open>purchaseConfig\<close>), which is not a legal end of a name
  here; otherwise the names are the source's.
\<close>

subsection \<open>JavaScript values\<close>

text \<open>
  The values that \<^verbatim>\<open>JSON.parse\<close> produces, with \<^verbatim>\<open>undefined\<close> added. A number is
  the value of the parsed double.
\<close>

datatype jsval =
    JUndefined
  | JNull
  | JBool bool
  | JNum rat
  | JStr string
  | JArr "jsval list"
  | JObj "(string \<times> jsval) list"

datatype http_response = Response (status: nat) (body: "jsval option")

text \<open>
  What a promise can be rejected with or a statement can throw. \<open>HttpError r\<close> is an error
  object whose \<^verbatim>\<open>response\<close> property is \<open>r\<close>; no other error has that property.
  \<open>NoReason\<close> is a falsy rejection value.
\<close>

datatype error =
    TypeError
  | RangeError
  | SyntaxError
  | UserError string
  | HttpError http_response
  | HostError string
  | NoReason

text \<open>
  Property reads \<^verbatim>\<open>v.k\<close> and \<^verbatim>\<open>v?.k\<close>, for the keys this file reads (none of them is
  a property of a prototype): a read on \<^verbatim>\<open>undefined\<close> or \<^verbatim>\<open>null\<close> throws, unless it is
  optional; a key that an object lacks, and any key of a primitive or an array, reads as
  \<^verbatim>\<open>undefined\<close>.
\<close>

definition own_prop :: "(string \<times> jsval) list \<Rightarrow> string \<Rightarrow> jsval" where
  "own_prop kvs k = (case map_of kvs k of None \<Rightarrow> JUndefined | Some v \<Rightarrow> v)"

fun get_prop :: "jsval \<Rightarrow> string \<Rightarrow> error + jsval" where
  "get_prop JUndefined k = Inl TypeError"
| "get_prop JNull k = Inl TypeError"
| "get_prop (JObj kvs) k = Inr (own_prop kvs k)"
| "get_prop v k = Inr JUndefined"

fun opt_prop :: "jsval \<Rightarrow> string \<Rightarrow> jsval" where
  "opt_prop (JObj kvs) k = own_prop kvs k"
| "opt_prop v k = JUndefined"

subsection \<open>The currency formatter of the platform\<close>

text \<open>
  \<^verbatim>\<open>new Intl.NumberFormat(locales, {style: 'currency', currency: c}).format(v)\<close> is a
  built-in of the platform (ECMA-402), not code of this adapter. Its locale data is not
  modelled: the formatted text is kept as the symbolic piece \<open>CurrencyFormat\<close> holding the
  three arguments. What is modelled is when the call throws:
  \<^item> the constructor throws a \<^verbatim>\<open>TypeError\<close> when the style is currency and \<open>c\<close> is
    \<^verbatim>\<open>undefined\<close>;
  \<^item> otherwise \<open>c\<close> is converted to a string, and the constructor throws a \<^verbatim>\<open>RangeError\<close>
    unless that string is three ASCII letters;
  \<^item> converting an object to a primitive throws a \<^verbatim>\<open>TypeError\<close> when the object has an
    own \<^verbatim>\<open>toString\<close> property (a parsed JSON value is never callable); an array is
    converted by joining the conversions of its elements.
\<close>

datatype piece = Lit string | CurrencyFormat string string jsval

fun to_primitive_throws :: "jsval \<Rightarrow> bool" where
  "to_primitive_throws (JObj kvs) = (''toString'' \<in> set (map fst kvs))"
| "to_primitive_throws (JArr xs) = (\<exists>x \<in> set xs. to_primitive_throws x)"
| "to_primitive_throws v = False"

definition ascii_letter :: "char \<Rightarrow> bool" where
  "ascii_letter c \<longleftrightarrow>
     (let n = (of_char c :: nat) in (65 \<le> n \<and> n \<le> 90) \<or> (97 \<le> n \<and> n \<le> 122))"

definition well_formed_currency_code :: "string \<Rightarrow> bool" where
  "well_formed_currency_code s \<longleftrightarrow> length s = 3 \<and> list_all ascii_letter s"

text \<open>
  The currency code that the string conversion of a value is, if it is one. A one-element
  array converts as its element does (\<^verbatim>\<open>null\<close> and \<^verbatim>\<open>undefined\<close> elements as the empty
  string); the conversions of the other values (\<^verbatim>\<open>"null"\<close>, \<^verbatim>\<open>"true"\<close>, a numeral,
  \<^verbatim>\<open>"[object Object]"\<close>, a joined string with a comma, the empty string) are not three
  letters.
\<close>

fun currency_code :: "jsval \<Rightarrow> string option" where
  "currency_code (JStr s) = (if well_formed_currency_code s then Some s else None)"
| "currency_code (JArr [x]) = currency_code x"
| "currency_code v = None"

definition NumberFormat_currency :: "string \<Rightarrow> jsval \<Rightarrow> error + (string \<times> string)" where
  "NumberFormat_currency locales c =
     (if c = JUndefined then Inl TypeError
      else if to_primitive_throws c then Inl TypeError
      else case currency_code c of
             None \<Rightarrow> Inl RangeError
           | Some code \<Rightarrow> Inr (locales, code))"

definition format :: "string \<times> string \<Rightarrow> jsval \<Rightarrow> error + piece" where
  "format nf v =
     (if to_primitive_throws v then Inl TypeError
      else Inr (CurrencyFormat (fst nf) (snd nf) v))"

subsection \<open>The document\<close>

text \<open>
  An element is its tag name, class name, text content and children. The document maps
  the id of an element to its children, so that an id is a reference to the element:
  \<^verbatim>\<open>removeChildren\<close> and \<^verbatim>\<open>appendChild\<close> update the entry.
\<close>

datatype node =
  Element (tagName: string) (className: string) (textContent: "piece list")
    (childNodes: "node list")

text \<open>
  A click listener is the closure that \<^verbatim>\<open>listen\<close> was given: the one of the purchase
  button, or the one of the already-purchased link with the \<^verbatim>\<open>href\<close> it captured.
\<close>

datatype handler = PurchaseClick | AlreadyPurchasedClick jsval

text \<open>The calls to collaborators of the host and to the DOM, in the order they are made.\<close>

datatype call =
    CallBuildUrl jsval bool
  | CallGetLoginUrl string
  | CallFetchJson string string
  | CallLoginWithUrl string
  | CallPreventDefault
  | CallRemoveChildren string
  | CallAppendChild string

subsection \<open>Constants and configuration\<close>

definition TAG :: string where
  "TAG = ''amp-access-fewcents''"

definition CONFIG_URL :: string where
  "CONFIG_URL = ''http://localhost:9000''"

definition CONFIG_BASE_PATH :: string where
  "CONFIG_BASE_PATH =
     ''/api/v1/amp/?'' @ ''article_url=CANONICAL_URL'' @ ''&amp_reader_id=READER_ID''
       @ ''&return_url=RETURN_URL''"

definition AUTHORIZATION_TIMEOUT :: nat where
  "AUTHORIZATION_TIMEOUT = 3000"

definition DEFAULT_MESSAGES :: "(string \<times> string) list" where
  "DEFAULT_MESSAGES =
     [(''defaultButton'', ''Unlock Article''),
      (''alreadyPurchasedLink'', ''I already bought this'')]"

text \<open>
  The adapter configuration, typed as \<^verbatim>\<open>fewcentsConfig_0_2_Def\<close> declares it; \<open>None\<close> is
  an absent (\<^verbatim>\<open>undefined\<close>) field. The field \<^verbatim>\<open>locale\<close> is \<open>localeName\<close> here.
\<close>

record fewcentsConfig =
  articleTitleSelector :: string
  configUrl :: "string option"
  articleId :: "string option"
  scrollToTopAfterAuth :: "bool option"
  localeName :: "string option"
  localeMessages :: "(string \<times> string) list option"
  region :: "string option"
  sandbox :: "bool option"

text \<open>\<^verbatim>\<open>x || d\<close> on an optional string: \<^verbatim>\<open>undefined\<close> and the empty string are falsy.\<close>

fun truthy :: "string option \<Rightarrow> bool" where
  "truthy None = False"
| "truthy (Some s) = (s \<noteq> [])"

definition or_default :: "string option \<Rightarrow> string \<Rightarrow> string" where
  "or_default x d = (case x of Some s \<Rightarrow> (if s \<noteq> [] then s else d) | None \<Rightarrow> d)"

text \<open>
  \<^verbatim>\<open>encodeURIComponent\<close>, on a string held as its UTF-8 bytes: the unreserved characters
  stay, every other byte becomes \<^verbatim>\<open>%XX\<close> in upper-case hexadecimal (both digits of a
  byte are below 16).
\<close>

definition uri_unreserved :: "char \<Rightarrow> bool" where
  "uri_unreserved c \<longleftrightarrow>
     c \<in> set (''ABCDEFGHIJKLMNOPQRSTUVWXYZ'' @ ''abcdefghijklmnopqrstuvwxyz''
               @ ''0123456789'' @ ''-_.!~*'' @ [CHR 0x27] @ ''()'')"

definition hex_digit :: "nat \<Rightarrow> char" where
  "hex_digit n = ''0123456789ABCDEF'' ! n"

definition percent_encode :: "char \<Rightarrow> string" where
  "percent_encode c =
     (let n = (of_char c :: nat) in [CHR ''%'', hex_digit (n div 16), hex_digit (n mod 16)])"

definition encodeURIComponent :: "string \<Rightarrow> string" where
  "encodeURIComponent s =
     concat (map (\<lambda>c. if uri_unreserved c then [c] else percent_encode c) s)"

subsection \<open>The adapter and its surroundings\<close>

text \<open>
  The fields of the \<^verbatim>\<open>FewcentsVendor\<close> instance, followed by what it acts on: the
  document, the click listeners that are registered at the moment (each with the number
  \<^verbatim>\<open>listen\<close> gave it; calling the function \<^verbatim>\<open>listen\<close> returned is \<open>dispose\<close> of that
  number), how many listeners were ever registered, the disposer calls made, the calls to
  collaborators, and the errors nobody caught.
\<close>

record vendor =
  fewcentsConfig :: fewcentsConfig
  purchaseConfig :: jsval
  purchaseButtonListener :: "nat option"
  alreadyPurchasedListener :: "nat option"
  containerEmpty :: bool
  innerContainer :: "node option"
  purchaseButton :: "node option"
  currentLocale :: string
  i18n :: "(string \<times> string) list"
  purchaseConfigBaseUrl :: string
  document :: "string \<rightharpoonup> node list"
  listeners :: "(nat \<times> handler) list"
  registered :: nat
  disposed :: "nat list"
  calls :: "call list"
  unhandled :: "error list"

definition getConfigUrl :: "fewcentsConfig \<Rightarrow> string" where
  "getConfigUrl this_config = CONFIG_URL"

text \<open>
  The constructor, given the adapter configuration and the document of the page.
  \<^verbatim>\<open>Object.assign(dict(), DEFAULT_MESSAGES, localeMessages || dict())\<close> is the association
  list with the overrides in front.
\<close>

definition constructor :: "fewcentsConfig \<Rightarrow> (string \<rightharpoonup> node list) \<Rightarrow> vendor" where
  "constructor config doc =
     \<lparr> fewcentsConfig = config,
       purchaseConfig = JNull,
       purchaseButtonListener = None,
       alreadyPurchasedListener = None,
       containerEmpty = True,
       innerContainer = None,
       purchaseButton = None,
       currentLocale = or_default (localeName config) ''en'',
       i18n = (case localeMessages config of None \<Rightarrow> [] | Some ms \<Rightarrow> ms) @ DEFAULT_MESSAGES,
       purchaseConfigBaseUrl =
         (getConfigUrl config @ CONFIG_BASE_PATH)
           @ (if truthy (articleId config)
              then ''&article_id='' @ encodeURIComponent (case articleId config of Some a \<Rightarrow> a | None \<Rightarrow> [])
              else []),
       document = doc,
       listeners = [],
       registered = 0,
       disposed = [],
       calls = [],
       unhandled = [] \<rparr>"

subsection \<open>Helpers of the host framework\<close>

text \<open>
  Modelled from the spec: \<^verbatim>\<open>user().assertElement\<close> of \<^verbatim>\<open>src/log.js\<close>, which is not
  among the sources. It returns its first argument when that is an element and throws a
  user error with the given message otherwise.
\<close>

definition assertElement :: "'a option \<Rightarrow> string \<Rightarrow> error + 'a" where
  "assertElement x msg = (case x of None \<Rightarrow> Inl (UserError msg) | Some e \<Rightarrow> Inr e)"

text \<open>
  Modelled from the spec: \<^verbatim>\<open>removeChildren\<close> of \<^verbatim>\<open>src/dom.js\<close> (removes all child
  nodes of the element), \<^verbatim>\<open>appendChild\<close> of the DOM, and \<^verbatim>\<open>listen\<close> of
  \<^verbatim>\<open>src/event-helper.js\<close> (registers the listener and returns the function that removes
  it).
\<close>

definition removeChildren :: "string \<Rightarrow> vendor \<Rightarrow> vendor" where
  "removeChildren el st =
     st\<lparr>document := (document st)(el \<mapsto> []), calls := calls st @ [CallRemoveChildren el]\<rparr>"

definition appendChild :: "string \<Rightarrow> node \<Rightarrow> vendor \<Rightarrow> vendor" where
  "appendChild el n st =
     st\<lparr>document := (document st)(el \<mapsto> (case document st el of None \<Rightarrow> [] | Some cs \<Rightarrow> cs) @ [n]),
        calls := calls st @ [CallAppendChild el]\<rparr>"

definition listen :: "handler \<Rightarrow> vendor \<Rightarrow> nat \<times> vendor" where
  "listen h st =
     (registered st,
      st\<lparr>listeners := listeners st @ [(registered st, h)], registered := Suc (registered st)\<rparr>)"

definition dispose :: "nat \<Rightarrow> vendor \<Rightarrow> vendor" where
  "dispose l st =
     st\<lparr>listeners := filter (\<lambda>e. fst e \<noteq> l) (listeners st), disposed := disposed st @ [l]\<rparr>"

subsection \<open>The overlay container\<close>

definition getContainer :: "vendor \<Rightarrow> error + string" where
  "getContainer st =
     (let id = TAG @ ''-dialog'';
          dialogContainer = (if document st id = None then None else Some id)
      in assertElement dialogContainer (''No element found with id '' @ id))"

text \<open>
  \<^verbatim>\<open>emptyContainer_\<close> returns a promise: \<^verbatim>\<open>Promise.resolve()\<close> when the container is
  empty already, and otherwise the promise of \<^verbatim>\<open>vsync.mutatePromise\<close>, which settles
  after the mutator has run. The part below is what runs before it returns; the mutator
  is \<open>emptyContainer_mutator\<close>.
\<close>

datatype promise = Resolved | AfterMutate

definition emptyContainer :: "vendor \<Rightarrow> promise \<times> vendor" where
  "emptyContainer st =
     (if containerEmpty st then (Resolved, st)
      else
        let st1 = (case purchaseButtonListener st of
                     None \<Rightarrow> st
                   | Some l \<Rightarrow> (dispose l st)\<lparr>purchaseButtonListener := None\<rparr>);
            st2 = (case alreadyPurchasedListener st1 of
                     None \<Rightarrow> st1
                   | Some l \<Rightarrow> (dispose l st1)\<lparr>alreadyPurchasedListener := None\<rparr>)
        in (AfterMutate, st2))"

definition emptyContainer_mutator :: "vendor \<Rightarrow> error option \<times> vendor" where
  "emptyContainer_mutator st =
     (let st1 = st\<lparr>containerEmpty := True, innerContainer := None\<rparr> in
      case getContainer st1 of
        Inl e \<Rightarrow> (Some e, st1)
      | Inr c \<Rightarrow> (None, removeChildren c st1))"

subsection \<open>Rendering the purchase overlay\<close>

text \<open>\<^verbatim>\<open>this.i18n_[key]\<close>; a missing message sets no text.\<close>

definition message :: "(string \<times> string) list \<Rightarrow> string \<Rightarrow> string" where
  "message messages key = (case map_of messages key of None \<Rightarrow> [] | Some m \<Rightarrow> m)"

text \<open>The template literal of the price line.\<close>

definition price_text :: "jsval \<Rightarrow> error + piece list" where
  "price_text config =
     (let price = opt_prop (opt_prop config ''purchase_options'') ''price'' in
      case NumberFormat_currency ''en-EN'' (opt_prop price ''currency'') of
        Inl e \<Rightarrow> Inl e
      | Inr nf \<Rightarrow>
          (case format nf (opt_prop price ''amount'') of
             Inl e \<Rightarrow> Inl e
           | Inr p \<Rightarrow> Inr [p, Lit ''/article'']))"

definition createAlreadyPurchasedLink :: "jsval \<Rightarrow> vendor \<Rightarrow> node \<times> vendor" where
  "createAlreadyPurchasedLink href st =
     (let button = Element ''button'' (TAG @ ''-purchase-button'')
                     [Lit (message (i18n st) ''alreadyPurchasedLink'')] [];
          (l, st1) = listen (AlreadyPurchasedClick href) st
      in (button, st1\<lparr>alreadyPurchasedListener := Some l\<rparr>))"

text \<open>
  The result is the error thrown, if any, and the state at that point: assignments made
  before a throw stay. \<^verbatim>\<open>this.innerContainer_\<close> is a reference, so the field shows the
  children that the element has got so far.
\<close>

definition renderPurchaseOverlay :: "vendor \<Rightarrow> error option \<times> vendor" where
  "renderPurchaseOverlay st =
     (case getContainer st of
        Inl e \<Rightarrow> (Some e, st)
      | Inr dialogContainer \<Rightarrow>
         (let st1 = st\<lparr>innerContainer := Some (Element ''div'' (TAG @ ''-container'') [] [])\<rparr>;
              leftLogo = Element ''div'' (TAG @ ''-left-logo-container'') [] [];
              leftContainer = Element ''div'' (TAG @ ''-left-container'') [] [leftLogo];
              fcLogoContainer =
                Element ''div'' (TAG @ ''-fc-logo-container'')
                  [Lit (''Few'' @ [CHR 0xC3, CHR 0x82, CHR 0xC2, CHR 0xA2] @ ''ents'')] [];
              logoContainer = Element ''div'' (TAG @ ''-logo-container'') [] [fcLogoContainer];
              description =
                Element ''div'' (TAG @ ''-description-container'')
                  [Lit ''Get access to premium content now!''] [];
              subDescription =
                Element ''div'' (TAG @ ''-subDescription-container'')
                  [Lit ''One login. Many publishers. No subscription.''] []
          in
          (case price_text (purchaseConfig st1) of
             Inl e \<Rightarrow> (Some e, st1)
           | Inr priceText \<Rightarrow>
              (let price = Element ''div'' (TAG @ ''-price'') priceText [];
                   rightChildren = [logoContainer, description, subDescription, price];
                   st2 = st1\<lparr>innerContainer :=
                           Some (Element ''div'' (TAG @ ''-container'') []
                                   [leftContainer,
                                    Element ''div'' (TAG @ ''-right-container'') [] rightChildren])\<rparr>;
                   purchaseButton_el =
                     Element ''button'' (TAG @ ''-purchase-button primary'')
                       [Lit (message (i18n st2) ''defaultButton'')] [];
                   (l, st3) = listen PurchaseClick (st2\<lparr>purchaseButton := Some purchaseButton_el\<rparr>);
                   st4 = st3\<lparr>purchaseButtonListener := Some l\<rparr>
               in
               (case get_prop (purchaseConfig st4) ''identify_url'' of
                  Inl e \<Rightarrow> (Some e, st4)
                | Inr href \<Rightarrow>
                   (let (link, st5) = createAlreadyPurchasedLink href st4;
                        buttonsContainer =
                          Element ''div'' (TAG @ ''-buttons-container'') [] [purchaseButton_el, link];
                        overlay =
                          Element ''div'' (TAG @ ''-container'') []
                            [leftContainer,
                             Element ''div'' (TAG @ ''-right-container'') []
                               (rightChildren @ [buttonsContainer])];
                        st6 = appendChild dialogContainer overlay (st5\<lparr>innerContainer := Some overlay\<rparr>)
                    in (None, st6\<lparr>containerEmpty := False\<rparr>)))))))"

text \<open>\<^verbatim>\<open>renderContainer\<close>: looks the container up and returns it.\<close>

definition renderContainer :: "vendor \<Rightarrow> error + string" where
  "renderContainer st = getContainer st"

subsection \<open>Purchase and login handoff\<close>

text \<open>
  The collaborators that the host supplies. \<open>buildUrl\<close> and \<open>getLoginUrl\<close> of the access
  source return promises (\<open>Inl\<close> is a rejection); \<open>fetch\<close> is the network: after the
  given number of milliseconds it gives a response, or none when the transport fails.
\<close>

record env =
  buildUrl :: "jsval \<Rightarrow> bool \<Rightarrow> error + string"
  getLoginUrl :: "string \<Rightarrow> error + string"
  fetch :: "string \<Rightarrow> nat \<times> http_response option"

record event =
  defaultPrevented :: bool

text \<open>
  \<^verbatim>\<open>handlePurchase_(ev, purchaseUrl)\<close> declares two parameters: of the arguments after
  the event it binds the first, and ignores the others. The result is how the promise it
  returns settles.
\<close>

definition handlePurchase :: "env \<Rightarrow> event \<Rightarrow> jsval list \<Rightarrow> vendor \<Rightarrow> (error + unit) \<times> event \<times> vendor" where
  "handlePurchase env ev args st =
     (let purchaseUrl = (case args of [] \<Rightarrow> JUndefined | a # _ \<Rightarrow> a);
          ev1 = ev\<lparr>defaultPrevented := True\<rparr>;
          st1 = st\<lparr>calls := calls st @ [CallPreventDefault, CallBuildUrl purchaseUrl False]\<rparr>
      in case buildUrl env purchaseUrl False of
           Inl e \<Rightarrow> (Inl e, ev1, st1)
         | Inr url \<Rightarrow> (Inr (), ev1, st1\<lparr>calls := calls st1 @ [CallLoginWithUrl url]\<rparr>))"

text \<open>
  The arguments, after the event, with which a click listener calls
  \<^verbatim>\<open>handlePurchase_\<close>. The purchase button reads the purchase URL from the purchase
  config of the moment of the click.
\<close>

definition listener_args :: "handler \<Rightarrow> vendor \<Rightarrow> error + jsval list" where
  "listener_args h st =
     (case h of
        PurchaseClick \<Rightarrow>
          (case get_prop (purchaseConfig st) ''purchase_options'' of
             Inl e \<Rightarrow> Inl e
           | Inr options \<Rightarrow>
               (case get_prop options ''purchase_url'' of
                  Inl e \<Rightarrow> Inl e
                | Inr url \<Rightarrow> Inr [url]))
      | AlreadyPurchasedClick href \<Rightarrow> Inr [href, JStr ''alreadyPurchased''])"

text \<open>
  A click that reaches a listener. Neither listener catches what it throws nor looks at
  the promise of \<^verbatim>\<open>handlePurchase_\<close>, so an error ends among the unhandled ones.
\<close>

definition click :: "env \<Rightarrow> handler \<Rightarrow> event \<Rightarrow> vendor \<Rightarrow> event \<times> vendor" where
  "click env h ev st =
     (case listener_args h st of
        Inl e \<Rightarrow> (ev, st\<lparr>unhandled := unhandled st @ [e]\<rparr>)
      | Inr args \<Rightarrow>
          (case handlePurchase env ev args st of
             (Inl e, ev1, st1) \<Rightarrow> (ev1, st1\<lparr>unhandled := unhandled st1 @ [e]\<rparr>)
           | (Inr u, ev1, st1) \<Rightarrow> (ev1, st1)))"

definition pingback :: "vendor \<Rightarrow> unit \<times> vendor" where
  "pingback st = ((), st)"

subsection \<open>Authorization\<close>

text \<open>
  Modelled from the spec: \<^verbatim>\<open>xhr.fetchJson\<close> of \<^verbatim>\<open>src/service/xhr-impl.js\<close>, which is not
  among the sources. It resolves with the response when the status is a success (2xx),
  and otherwise rejects with an error that carries the response; a transport failure
  rejects with an error that carries none.
\<close>

definition fetchJson :: "env \<Rightarrow> string \<Rightarrow> nat \<times> (error + http_response)" where
  "fetchJson env url =
     (case fetch env url of
        (t, None) \<Rightarrow> (t, Inl (HostError ''network failure''))
      | (t, Some r) \<Rightarrow>
          (t, if 200 \<le> status r \<and> status r < 300 then Inr r else Inl (HttpError r)))"

text \<open>
  Modelled from the spec: \<^verbatim>\<open>timer.timeoutPromise\<close> of \<^verbatim>\<open>src/service/timer-impl.js\<close>,
  which is not among the sources. It settles as the given promise does, unless that takes
  longer than the delay: then it rejects with a timeout error.
\<close>

definition timeoutPromise :: "nat \<Rightarrow> nat \<times> (error + 'a) \<Rightarrow> error + 'a" where
  "timeoutPromise delay p = (if delay < fst p then Inl (UserError ''timeout'') else snd p)"

text \<open>\<^verbatim>\<open>response.json()\<close>: rejects when the body is not JSON.\<close>

definition json :: "http_response \<Rightarrow> error + jsval" where
  "json r = (case body r of None \<Rightarrow> Inl SyntaxError | Some v \<Rightarrow> Inr v)"

definition getPurchaseConfig :: "env \<Rightarrow> vendor \<Rightarrow> (error + jsval) \<times> vendor" where
  "getPurchaseConfig env st =
     (let url = purchaseConfigBaseUrl st;
          st1 = st\<lparr>calls := calls st @ [CallBuildUrl (JStr url) False]\<rparr>
      in (case buildUrl env (JStr url) False of
            Inl e \<Rightarrow> (Inl e, st1)
          | Inr url1 \<Rightarrow>
             (let st2 = st1\<lparr>calls := calls st1 @ [CallGetLoginUrl url1]\<rparr> in
              (case getLoginUrl env url1 of
                 Inl e \<Rightarrow> (Inl e, st2)
               | Inr url2 \<Rightarrow>
                  (let st3 = st2\<lparr>calls := calls st2 @ [CallFetchJson url2 ''include'']\<rparr> in
                   (case timeoutPromise AUTHORIZATION_TIMEOUT (fetchJson env url2) of
                      Inl e \<Rightarrow> (Inl e, st3)
                    | Inr res \<Rightarrow> (json res, st3)))))))"

definition NO_CONFIGURATION :: string where
  "NO_CONFIGURATION =
     ''No merchant domains have been matched for this '' @
     ''article, or no paid content configurations are setup.''"

text \<open>
  What \<^verbatim>\<open>authorize\<close> leaves to run after its promise has settled: the mutator of
  \<^verbatim>\<open>emptyContainer_\<close>, the rendering chained to it with \<^verbatim>\<open>then\<close>, both or neither.
\<close>

datatype deferred = Nothing | Mutate | Render | MutateThenRender

definition authorize :: "env \<Rightarrow> vendor \<Rightarrow> (error + jsval) \<times> deferred \<times> vendor" where
  "authorize env st =
     (case getPurchaseConfig env st of
        (Inr response, st1) \<Rightarrow>
          (case get_prop response ''status'' of
             Inl e \<Rightarrow> (Inl e, Nothing, st1)
           | Inr s \<Rightarrow>
               if s = JNum 204 then (Inl (UserError NO_CONFIGURATION), Nothing, st1)
               else
                 (case emptyContainer st1 of
                    (p, st2) \<Rightarrow>
                      let d = (if p = AfterMutate then Mutate else Nothing) in
                      (case get_prop response ''access'' of
                         Inl e \<Rightarrow> (Inl e, d, st2)
                       | Inr a \<Rightarrow> (Inr (JObj [(''access'', a)]), d, st2))))
      | (Inl err, st1) \<Rightarrow>
          (case err of
             HttpError response \<Rightarrow>
               if status response \<noteq> 402 then (Inl err, Nothing, st1)
               else
                 let responseJson = (case json response of Inl e \<Rightarrow> JUndefined | Inr v \<Rightarrow> v);
                     st2 = st1\<lparr>purchaseConfig := responseJson\<rparr>
                 in (case emptyContainer st2 of
                       (p, st3) \<Rightarrow>
                         (Inr (JObj [(''access'', JBool False)]),
                          (if p = AfterMutate then MutateThenRender else Render), st3))
           | _ \<Rightarrow> (Inl err, Nothing, st1)))"

text \<open>
  Modelled from the spec: \<^verbatim>\<open>vsync.mutatePromise\<close> of \<^verbatim>\<open>src/service/vsync-impl.js\<close>,
  which is not among the sources. The mutator runs later, as one batch, and what is
  chained to the promise runs after it. Here the chained rendering does not run when the
  mutator throws (it could only throw again, at the same lookup of the container).
  Nothing catches an error of the deferred work.
\<close>

definition report :: "error option \<times> vendor \<Rightarrow> vendor" where
  "report r = (case r of (None, st) \<Rightarrow> st | (Some e, st) \<Rightarrow> st\<lparr>unhandled := unhandled st @ [e]\<rparr>)"

definition run_deferred :: "deferred \<Rightarrow> vendor \<Rightarrow> vendor" where
  "run_deferred d st =
     (case d of
        Nothing \<Rightarrow> st
      | Mutate \<Rightarrow> report (emptyContainer_mutator st)
      | Render \<Rightarrow> report (renderPurchaseOverlay st)
      | MutateThenRender \<Rightarrow>
          (case emptyContainer_mutator st of
             (Some e, st1) \<Rightarrow> report (Some e, st1)
           | (None, st1) \<Rightarrow> report (renderPurchaseOverlay st1)))"

text \<open>One call of \<^verbatim>\<open>authorize\<close> with its deferred work done before anything else happens.\<close>

definition authorize_settled :: "env \<Rightarrow> vendor \<Rightarrow> (error + jsval) \<times> vendor" where
  "authorize_settled env st =
     (case authorize env st of (r, d, st1) \<Rightarrow> (r, run_deferred d st1))"

subsection \<open>Runs and observations\<close>

text \<open>\<^verbatim>\<open>emptyContainer_\<close> with its mutator, if it scheduled one, done.\<close>

definition emptyContainer_settled :: "vendor \<Rightarrow> vendor" where
  "emptyContainer_settled st =
     (case emptyContainer st of
        (Resolved, st1) \<Rightarrow> st1
      | (AfterMutate, st1) \<Rightarrow> report (emptyContainer_mutator st1))"

text \<open>
  Calls of \<^verbatim>\<open>authorize\<close> one after the other, one environment for each, every call with
  its deferred work done before the next one starts.
\<close>

fun authorize_all :: "env list \<Rightarrow> vendor \<Rightarrow> vendor" where
  "authorize_all [] st = st"
| "authorize_all (e # es) st = authorize_all es (snd (authorize_settled e st))"

text \<open>The calls that \<^verbatim>\<open>getPurchaseConfig_\<close> makes when both URL steps resolve.\<close>

definition round_trip :: "vendor \<Rightarrow> string \<Rightarrow> string \<Rightarrow> call list" where
  "round_trip st url1 url2 =
     [CallBuildUrl (JStr (purchaseConfigBaseUrl st)) False, CallGetLoginUrl url1,
      CallFetchJson url2 ''include'']"

fun is_fetch :: "call \<Rightarrow> bool" where
  "is_fetch (CallFetchJson url credentials) = True"
| "is_fetch c = False"

fun is_dom_call :: "call \<Rightarrow> bool" where
  "is_dom_call (CallRemoveChildren el) = True"
| "is_dom_call (CallAppendChild el) = True"
| "is_dom_call c = False"

text \<open>The overlays in the dialog container, and the click listeners of either button.\<close>

definition dialog_children :: "vendor \<Rightarrow> node list" where
  "dialog_children st = (case document st (TAG @ ''-dialog'') of None \<Rightarrow> [] | Some cs \<Rightarrow> cs)"

definition overlays :: "vendor \<Rightarrow> node list" where
  "overlays st = filter (\<lambda>n. className n = TAG @ ''-container'') (dialog_children st)"

fun is_purchase :: "handler \<Rightarrow> bool" where
  "is_purchase PurchaseClick = True"
| "is_purchase (AlreadyPurchasedClick href) = False"

definition purchase_listeners :: "vendor \<Rightarrow> nat list" where
  "purchase_listeners st = map fst (filter (\<lambda>e. is_purchase (snd e)) (listeners st))"

definition alreadyPurchased_listeners :: "vendor \<Rightarrow> nat list" where
  "alreadyPurchased_listeners st = map fst (filter (\<lambda>e. \<not> is_purchase (snd e)) (listeners st))"

text \<open>The text contents of the elements of a class, in document order.\<close>

fun texts_of_class :: "string \<Rightarrow> node \<Rightarrow> piece list list" where
  "texts_of_class c (Element t cl tx cs) =
     (if cl = c then [tx] else []) @ concat (map (texts_of_class c) cs)"

definition rendered_prices :: "vendor \<Rightarrow> piece list list" where
  "rendered_prices st = concat (map (texts_of_class (TAG @ ''-price'')) (dialog_children st))"

text \<open>
  The state between two calls: either the container is empty, no listener is registered
  or held and no overlay is in the document; or one overlay is there, with one listener
  for each button, held in its field. Every listener ever registered is registered still
  or was disposed of, once.
\<close>

definition consistent :: "vendor \<Rightarrow> bool" where
  "consistent st \<longleftrightarrow>
     (if containerEmpty st
      then listeners st = [] \<and> purchaseButtonListener st = None
           \<and> alreadyPurchasedListener st = None \<and> overlays st = []
      else length (overlays st) = 1
           \<and> map Some (purchase_listeners st) = [purchaseButtonListener st]
           \<and> map Some (alreadyPurchased_listeners st) = [alreadyPurchasedListener st]
           \<and> length (listeners st) = 2)
     \<and> distinct (disposed st @ map fst (listeners st))
     \<and> set (disposed st @ map fst (listeners st)) = {..<registered st}"

text \<open>At most one overlay in the container and at most one click listener for each button.\<close>

definition at_most_one :: "vendor \<Rightarrow> bool" where
  "at_most_one st \<longleftrightarrow>
     length (overlays st) \<le> 1 \<and> length (purchase_listeners st) \<le> 1
     \<and> length (alreadyPurchased_listeners st) \<le> 1"

text \<open>
  A purchase config from which the price line can be built, which is where rendering
  can throw once the container is found; and an environment that answers the
  authorization request for the given URL with status 402 and such a config, in time.
\<close>

definition renderable :: "jsval \<Rightarrow> bool" where
  "renderable v = (case price_text v of Inl e \<Rightarrow> False | Inr p \<Rightarrow> True)"

definition renderable_denial :: "env \<Rightarrow> string \<Rightarrow> bool" where
  "renderable_denial env url =
     (case buildUrl env (JStr url) False of
        Inl e \<Rightarrow> False
      | Inr url1 \<Rightarrow>
          (case getLoginUrl env url1 of
             Inl e \<Rightarrow> False
           | Inr url2 \<Rightarrow>
               (case fetch env url2 of
                  (t, None) \<Rightarrow> False
                | (t, Some r) \<Rightarrow>
                    t \<le> AUTHORIZATION_TIMEOUT \<and> status r = 402
                    \<and> (case body r of None \<Rightarrow> False | Some v \<Rightarrow> renderable v))))"

subsection \<open>Example inputs\<close>

definition example_config :: fewcentsConfig where
  "example_config =
     \<lparr> articleTitleSelector = ''h1'', configUrl = Some ''https://wallet.example'',
       articleId = Some ''a b/1'', scrollToTopAfterAuth = None, localeName = Some ''de'',
       localeMessages = None, region = None, sandbox = None \<rparr>"

definition example_document :: "string \<rightharpoonup> node list" where
  "example_document = [''amp-access-fewcents-dialog'' \<mapsto> []]"

definition example_purchase_config :: jsval where
  "example_purchase_config =
     JObj [(''identify_url'', JStr ''https://wallet.example/identify''),
           (''purchase_options'',
            JObj [(''purchase_url'', JStr ''https://wallet.example/buy''),
                  (''price'', JObj [(''amount'', JNum 5), (''currency'', JStr ''EUR'')])])]"

text \<open>
  An environment whose URL steps resolve (the first appends the reader) and whose
  network answers every request the same way after the given time.
\<close>

definition example_env :: "http_response option \<Rightarrow> nat \<Rightarrow> env" where
  "example_env r t =
     \<lparr> buildUrl = (\<lambda>v useAuthData. case v of JStr s \<Rightarrow> Inr (s @ ''&rid=7'') | _ \<Rightarrow> Inl TypeError),
       getLoginUrl = (\<lambda>url. Inr url),
       fetch = (\<lambda>url. (t, r)) \<rparr>"

definition example_vendor :: vendor where
  "example_vendor = constructor example_config example_document"

section \<open>Properties\<close>

subsection \<open>Auxiliary facts\<close>

lemma example_env_simps [simp]:
  "buildUrl (example_env r t) (JStr s) b = Inr (s @ ''&rid=7'')"
  "getLoginUrl (example_env r t) u = Inr u"
  "fetch (example_env r t) u = (t, r)"
  by (simp_all add: example_env_def)

lemma example_vendor_simps [simp]:
  "containerEmpty example_vendor"
  "document example_vendor = example_document"
  "listeners example_vendor = []"
  "purchaseButtonListener example_vendor = None"
  "alreadyPurchasedListener example_vendor = None"
  "registered example_vendor = 0"
  "disposed example_vendor = []"
  "calls example_vendor = []"
  "unhandled example_vendor = []"
  "purchaseConfig example_vendor = JNull"
  "currentLocale example_vendor = ''de''"
  by (simp_all add: example_vendor_def constructor_def example_config_def or_default_def)

lemma example_document_dialog [simp]:
  "example_document ''amp-access-fewcents-dialog'' = Some []"
  by (simp add: example_document_def)

lemma getPurchaseConfig_fetched:
  assumes "buildUrl env (JStr (purchaseConfigBaseUrl st)) False = Inr u1"
      and "getLoginUrl env u1 = Inr u2"
  shows "getPurchaseConfig env st =
           (case timeoutPromise AUTHORIZATION_TIMEOUT (fetchJson env u2) of
              Inl e \<Rightarrow> Inl e | Inr res \<Rightarrow> json res,
            st\<lparr>calls := calls st @ round_trip st u1 u2\<rparr>)"
  using assms by (simp add: getPurchaseConfig_def round_trip_def Let_def split: sum.splits)

lemma authorize_resolved:
  assumes "buildUrl env (JStr (purchaseConfigBaseUrl st)) False = Inr u1"
      and "getLoginUrl env u1 = Inr u2"
      and "fetch env u2 = (t, Some (Response s (Some v)))"
      and "t \<le> 3000" and "200 \<le> s" and "s < 300"
  shows "getPurchaseConfig env st = (Inr v, st\<lparr>calls := calls st @ round_trip st u1 u2\<rparr>)"
  using assms
  by (simp add: getPurchaseConfig_fetched fetchJson_def timeoutPromise_def
      AUTHORIZATION_TIMEOUT_def json_def)

lemma emptyContainer_settled_empty:
  "containerEmpty st \<Longrightarrow> emptyContainer_settled st = st"
  by (simp add: emptyContainer_settled_def emptyContainer_def)

lemma document_emptyContainer [simp]: "document (snd (emptyContainer st)) = document st"
  by (simp add: emptyContainer_def dispose_def Let_def split: option.splits)

lemma getContainer_present:
  "document st ''amp-access-fewcents-dialog'' \<noteq> None \<Longrightarrow> getContainer st = Inr ''amp-access-fewcents-dialog''"
  by (auto simp add: getContainer_def TAG_def assertElement_def Let_def)

lemma getContainer_absent:
  "document st ''amp-access-fewcents-dialog'' = None \<Longrightarrow>
     getContainer st = Inl (UserError ''No element found with id amp-access-fewcents-dialog'')"
  by (simp add: getContainer_def TAG_def assertElement_def Let_def)

lemma emptyContainer_settled_clears:
  assumes "\<not> containerEmpty st" and "document st ''amp-access-fewcents-dialog'' \<noteq> None"
  shows "document (emptyContainer_settled st) ''amp-access-fewcents-dialog'' = Some []"
proof -
  obtain s1 where e: "emptyContainer st = (AfterMutate, s1)"
    using assms(1) by (simp add: emptyContainer_def Let_def)
  have "document s1 = document st"
    using document_emptyContainer [of st] by (simp add: e)
  then have "getContainer (s1\<lparr>containerEmpty := True, innerContainer := None\<rparr>)
               = Inr ''amp-access-fewcents-dialog''"
    using assms(2) by (simp add: getContainer_present)
  then show ?thesis
    by (simp add: emptyContainer_settled_def e emptyContainer_mutator_def Let_def report_def
        removeChildren_def)
qed

lemma run_deferred_after_emptyContainer:
  "run_deferred (if fst (emptyContainer st) = AfterMutate then Mutate else Nothing)
     (snd (emptyContainer st)) = emptyContainer_settled st"
  by (simp add: run_deferred_def emptyContainer_settled_def emptyContainer_def Let_def)

lemma containerEmpty_emptyContainer_settled: "containerEmpty (emptyContainer_settled st)"
  by (simp add: emptyContainer_settled_def emptyContainer_def emptyContainer_mutator_def
      report_def removeChildren_def Let_def split: sum.splits)

lemma price_text_object:
  "price_text v = Inr p \<Longrightarrow> \<exists>kvs. v = JObj kvs"
  by (cases v) (simp_all add: price_text_def NumberFormat_currency_def)

lemma renderPurchaseOverlay_absent:
  assumes "document st ''amp-access-fewcents-dialog'' = None"
  shows "renderPurchaseOverlay st =
           (Some (UserError ''No element found with id amp-access-fewcents-dialog''), st)"
  using assms by (simp add: renderPurchaseOverlay_def getContainer_absent)

lemma renderPurchaseOverlay_throws:
  assumes "document st ''amp-access-fewcents-dialog'' \<noteq> None"
      and "price_text (purchaseConfig st) = Inl e"
  shows "renderPurchaseOverlay st =
           (Some e, st\<lparr>innerContainer := Some (Element ''div'' ''amp-access-fewcents-container'' [] [])\<rparr>)"
  using assms by (simp add: renderPurchaseOverlay_def getContainer_present TAG_def Let_def)

lemma renderPurchaseOverlay_completes:
  assumes "document st ''amp-access-fewcents-dialog'' = Some cs"
      and "price_text (purchaseConfig st) = Inr p"
  shows "fst (renderPurchaseOverlay st) = None"
    and "\<exists>ov. className ov = ''amp-access-fewcents-container''
            \<and> texts_of_class ''amp-access-fewcents-price'' ov = [p]
            \<and> document (snd (renderPurchaseOverlay st)) =
                 (document st)(''amp-access-fewcents-dialog'' \<mapsto> cs @ [ov])"
    and "listeners (snd (renderPurchaseOverlay st)) =
           listeners st @ [(registered st, PurchaseClick),
             (Suc (registered st), AlreadyPurchasedClick (opt_prop (purchaseConfig st) ''identify_url''))]"
    and "registered (snd (renderPurchaseOverlay st)) = Suc (Suc (registered st))"
    and "purchaseButtonListener (snd (renderPurchaseOverlay st)) = Some (registered st)"
    and "alreadyPurchasedListener (snd (renderPurchaseOverlay st)) = Some (Suc (registered st))"
    and "containerEmpty (snd (renderPurchaseOverlay st)) = False"
    and "calls (snd (renderPurchaseOverlay st)) = calls st @ [CallAppendChild ''amp-access-fewcents-dialog'']"
    and "disposed (snd (renderPurchaseOverlay st)) = disposed st"
    and "unhandled (snd (renderPurchaseOverlay st)) = unhandled st"
    and "purchaseConfig (snd (renderPurchaseOverlay st)) = purchaseConfig st"
proof -
  obtain kvs where k: "purchaseConfig st = JObj kvs"
    using price_text_object [OF assms(2)] by blast
  have g: "getContainer st = Inr ''amp-access-fewcents-dialog''"
    using assms(1) by (simp add: getContainer_present)
  note defs = renderPurchaseOverlay_def g Let_def createAlreadyPurchasedLink_def listen_def
    appendChild_def split_def
  from assms(2) k have p: "price_text (JObj kvs) = Inr p" by simp
  show "fst (renderPurchaseOverlay st) = None" by (simp add: defs k p)
  show "listeners (snd (renderPurchaseOverlay st)) =
           listeners st @ [(registered st, PurchaseClick),
             (Suc (registered st), AlreadyPurchasedClick (opt_prop (purchaseConfig st) ''identify_url''))]"
    by (simp add: defs k p)
  show "registered (snd (renderPurchaseOverlay st)) = Suc (Suc (registered st))"
    by (simp add: defs k p)
  show "purchaseButtonListener (snd (renderPurchaseOverlay st)) = Some (registered st)"
    by (simp add: defs k p)
  show "alreadyPurchasedListener (snd (renderPurchaseOverlay st)) = Some (Suc (registered st))"
    by (simp add: defs k p)
  show "containerEmpty (snd (renderPurchaseOverlay st)) = False" by (simp add: defs k p)
  show "calls (snd (renderPurchaseOverlay st)) = calls st @ [CallAppendChild ''amp-access-fewcents-dialog'']"
    by (simp add: defs k p)
  show "disposed (snd (renderPurchaseOverlay st)) = disposed st" by (simp add: defs k p)
  show "unhandled (snd (renderPurchaseOverlay st)) = unhandled st" by (simp add: defs k p)
  show "purchaseConfig (snd (renderPurchaseOverlay st)) = purchaseConfig st" by (simp add: defs k p)
  define ov where
    "ov = last (the (document (snd (renderPurchaseOverlay st)) ''amp-access-fewcents-dialog''))"
  have d: "document (snd (renderPurchaseOverlay st)) =
             (document st)(''amp-access-fewcents-dialog'' \<mapsto> cs @ [ov])"
    unfolding ov_def by (simp add: defs k p assms(1) TAG_def)
  have c: "className ov = ''amp-access-fewcents-container''"
    unfolding ov_def by (simp add: defs k p assms(1) TAG_def)
  have t: "texts_of_class ''amp-access-fewcents-price'' ov = [p]"
    unfolding ov_def by (simp add: defs k p assms(1) TAG_def)
  show "\<exists>ov. className ov = ''amp-access-fewcents-container''
            \<and> texts_of_class ''amp-access-fewcents-price'' ov = [p]
            \<and> document (snd (renderPurchaseOverlay st)) =
                 (document st)(''amp-access-fewcents-dialog'' \<mapsto> cs @ [ov])"
    using d c t by blast
qed

lemma calls_emptyContainer [simp]: "calls (snd (emptyContainer st)) = calls st"
  by (simp add: emptyContainer_def dispose_def Let_def split: option.splits)

lemma fetches_emptyContainer_mutator [simp]:
  "filter is_fetch (calls (snd (emptyContainer_mutator st))) = filter is_fetch (calls st)"
  by (simp add: emptyContainer_mutator_def removeChildren_def Let_def split: sum.splits)

lemma calls_report [simp]: "calls (report r) = calls (snd r)"
  by (cases r) (simp add: report_def split: option.splits)

lemma fetches_renderPurchaseOverlay [simp]:
  "filter is_fetch (calls (snd (renderPurchaseOverlay st))) = filter is_fetch (calls st)"
proof (cases "document st ''amp-access-fewcents-dialog''")
  case None
  then show ?thesis by (simp add: renderPurchaseOverlay_absent)
next
  case (Some cs)
  show ?thesis
  proof (cases "price_text (purchaseConfig st)")
    case (Inl e)
    then show ?thesis using Some by (simp add: renderPurchaseOverlay_throws)
  next
    case (Inr p)
    then show ?thesis using renderPurchaseOverlay_completes(8) [OF Some Inr] by simp
  qed
qed

lemma fetches_run_deferred [simp]:
  "filter is_fetch (calls (run_deferred d st)) = filter is_fetch (calls st)"
proof (cases d)
  case MutateThenRender
  obtain e s1 where m: "emptyContainer_mutator st = (e, s1)" by (cases "emptyContainer_mutator st")
  have "filter is_fetch (calls s1) = filter is_fetch (calls st)"
    using fetches_emptyContainer_mutator [of st] by (simp add: m)
  then show ?thesis
    using MutateThenRender by (cases e) (simp_all add: run_deferred_def m)
qed (simp_all add: run_deferred_def)

lemma calls_authorize:
  "calls (snd (snd (authorize env st))) = calls (snd (getPurchaseConfig env st))"
proof -
  obtain r s1 where g: "getPurchaseConfig env st = (r, s1)" by (cases "getPurchaseConfig env st")
  have e: "calls (snd (emptyContainer s)) = calls s" for s by simp
  have e': "emptyContainer s = (p, s') \<Longrightarrow> calls s' = calls s" for s p s'
    using e [of s] by simp
  show ?thesis
    by (auto simp add: authorize_def g Let_def dest: e'
        split: sum.splits error.splits prod.splits)
qed

lemma fetches_getPurchaseConfig:
  "length (filter is_fetch (calls (snd (getPurchaseConfig env st))))
     \<le> Suc (length (filter is_fetch (calls st)))"
  by (simp add: getPurchaseConfig_def Let_def split: sum.splits)

lemma fetches_authorize_settled:
  "filter is_fetch (calls (snd (authorize_settled env st)))
     = filter is_fetch (calls (snd (getPurchaseConfig env st)))"
proof -
  obtain r d s1 where a: "authorize env st = (r, d, s1)" by (cases "authorize env st")
  then have "calls s1 = calls (snd (getPurchaseConfig env st))"
    using calls_authorize [of env st] by simp
  then show ?thesis by (simp add: authorize_settled_def a)
qed

lemma at_most_one_fetch:
  "length (filter is_fetch (calls (snd (authorize_settled env st))))
     \<le> Suc (length (filter is_fetch (calls st)))"
  by (simp add: fetches_authorize_settled fetches_getPurchaseConfig)

lemma encodeURIComponent_example: "encodeURIComponent ''a b/1'' = ''a%20b%2F1''"
  by (simp add: encodeURIComponent_def uri_unreserved_def percent_encode_def hex_digit_def)

lemma renderPurchaseOverlay_completed:
  assumes "renderPurchaseOverlay st = (None, st')"
  shows "\<exists>cs p. document st ''amp-access-fewcents-dialog'' = Some cs
           \<and> price_text (purchaseConfig st) = Inr p"
proof (cases "document st ''amp-access-fewcents-dialog''")
  case None
  then show ?thesis using assms by (simp add: renderPurchaseOverlay_absent)
next
  case (Some cs)
  then show ?thesis
    using assms by (cases "price_text (purchaseConfig st)") (simp_all add: renderPurchaseOverlay_throws)
qed

lemma price_text_options:
  "price_text (JObj kvs) = Inr p \<Longrightarrow> \<exists>po. own_prop kvs ''purchase_options'' = JObj po"
  by (cases "own_prop kvs ''purchase_options''")
     (simp_all add: price_text_def NumberFormat_currency_def)

lemma price_text_well_formed:
  assumes "own_prop kvs ''purchase_options'' = JObj po"
      and "own_prop po ''price'' = JObj pr"
      and "own_prop pr ''currency'' = JStr c"
      and "well_formed_currency_code c"
      and "own_prop pr ''amount'' = JNum a"
  shows "price_text (JObj kvs) = Inr [CurrencyFormat ''en-EN'' c (JNum a), Lit ''/article'']"
  using assms by (simp add: price_text_def NumberFormat_currency_def format_def)

lemma example_price_text:
  "price_text example_purchase_config = Inr [CurrencyFormat ''en-EN'' ''EUR'' (JNum 5), Lit ''/article'']"
  by (simp add: example_purchase_config_def price_text_def NumberFormat_currency_def format_def
      own_prop_def well_formed_currency_code_def ascii_letter_def)

lemma example_denial:
  "authorize (example_env (Some (Response 402 (Some example_purchase_config))) 10) example_vendor =
      (Inr (JObj [(''access'', JBool False)]), Render,
       example_vendor\<lparr>calls := round_trip example_vendor
           (purchaseConfigBaseUrl example_vendor @ ''&rid=7'')
           (purchaseConfigBaseUrl example_vendor @ ''&rid=7''),
         purchaseConfig := example_purchase_config\<rparr>)"
  by (simp add: authorize_def getPurchaseConfig_fetched fetchJson_def timeoutPromise_def
        AUTHORIZATION_TIMEOUT_def json_def emptyContainer_def)

lemma handlePurchase_effect:
  "handlePurchase env ev (u # extra) st =
     (case buildUrl env u False of
        Inl e \<Rightarrow>
          (Inl e, ev\<lparr>defaultPrevented := True\<rparr>,
           st\<lparr>calls := calls st @ [CallPreventDefault, CallBuildUrl u False]\<rparr>)
      | Inr url \<Rightarrow>
          (Inr (), ev\<lparr>defaultPrevented := True\<rparr>,
           st\<lparr>calls := calls st @ [CallPreventDefault, CallBuildUrl u False, CallLoginWithUrl url]\<rparr>))"
  by (simp add: handlePurchase_def Let_def split: sum.splits)

lemma click_effect:
  assumes "listener_args h st = Inr (u # extra)"
  shows "defaultPrevented (fst (click env h ev st))
       \<and> calls (snd (click env h ev st)) =
           calls st @ [CallPreventDefault, CallBuildUrl u False]
             @ (case buildUrl env u False of Inl e \<Rightarrow> [] | Inr url \<Rightarrow> [CallLoginWithUrl url])"
  using assms by (simp add: click_def handlePurchase_effect split: sum.splits)

lemma authorize_denied:
  assumes "buildUrl env (JStr (purchaseConfigBaseUrl st)) False = Inr u1"
      and "getLoginUrl env u1 = Inr u2"
      and "fetch env u2 = (t, Some (Response 402 b))"
      and "t \<le> 3000"
  shows "authorize env st =
           (Inr (JObj [(''access'', JBool False)]),
            (if containerEmpty st then Render else MutateThenRender),
            snd (emptyContainer
                  (st\<lparr>calls := calls st @ round_trip st u1 u2,
                       purchaseConfig := (case b of None \<Rightarrow> JUndefined | Some v \<Rightarrow> v)\<rparr>)))"
  using assms
  by (simp add: authorize_def getPurchaseConfig_fetched fetchJson_def timeoutPromise_def
      AUTHORIZATION_TIMEOUT_def json_def emptyContainer_def Let_def split: option.splits)

lemma authorize_settled_denied:
  assumes "buildUrl env (JStr (purchaseConfigBaseUrl st)) False = Inr u1"
      and "getLoginUrl env u1 = Inr u2"
      and "fetch env u2 = (t, Some (Response 402 b))"
      and "t \<le> 3000"
      and "document st ''amp-access-fewcents-dialog'' \<noteq> None"
  shows "authorize_settled env st =
           (Inr (JObj [(''access'', JBool False)]),
            report (renderPurchaseOverlay (emptyContainer_settled
              (st\<lparr>calls := calls st @ round_trip st u1 u2,
                  purchaseConfig := (case b of None \<Rightarrow> JUndefined | Some v \<Rightarrow> v)\<rparr>))))"
proof -
  let ?st0 = "st\<lparr>calls := calls st @ round_trip st u1 u2,
                  purchaseConfig := (case b of None \<Rightarrow> JUndefined | Some v \<Rightarrow> v)\<rparr>"
  note a = authorize_denied [OF assms(1-4)]
  show ?thesis
  proof (cases "containerEmpty st")
    case True
    then show ?thesis
      by (simp add: authorize_settled_def a run_deferred_def emptyContainer_settled_def emptyContainer_def)
  next
    case False
    obtain s1 where e: "emptyContainer ?st0 = (AfterMutate, s1)"
      using False by (simp add: emptyContainer_def Let_def)
    have "getContainer (snd (emptyContainer ?st0)) = Inr ''amp-access-fewcents-dialog''"
      using assms(5) by (simp add: getContainer_present)
    then have g: "getContainer (s1\<lparr>containerEmpty := True, innerContainer := None\<rparr>)
                    = Inr ''amp-access-fewcents-dialog''"
      by (simp add: e getContainer_def)
    have s: "snd (emptyContainer ?st0) = s1" by (simp add: e)
    show ?thesis
      using False
      by (simp add: authorize_settled_def a s run_deferred_def emptyContainer_settled_def e
          report_def emptyContainer_mutator_def g Let_def)
  qed
qed

lemma consistent_fields:
  assumes "containerEmpty s = containerEmpty st" "listeners s = listeners st"
    "purchaseButtonListener s = purchaseButtonListener st"
    "alreadyPurchasedListener s = alreadyPurchasedListener st"
    "document s ''amp-access-fewcents-dialog'' = document st ''amp-access-fewcents-dialog''"
    "disposed s = disposed st" "registered s = registered st"
  shows "consistent s = consistent st"
  using assms
  by (simp add: consistent_def overlays_def dialog_children_def purchase_listeners_def
      alreadyPurchased_listeners_def TAG_def)

lemma consistent_nonempty:
  assumes "consistent st" and "\<not> containerEmpty st"
  obtains a b ha hb cs where
    "purchaseButtonListener st = Some a" "alreadyPurchasedListener st = Some b"
    "set (listeners st) = {(a, ha), (b, hb)}" "a \<noteq> b"
    "a \<notin> set (disposed st)" "b \<notin> set (disposed st)"
    "document st ''amp-access-fewcents-dialog'' = Some cs"
proof -
  from assms have l2: "length (listeners st) = 2"
    and p: "map Some (purchase_listeners st) = [purchaseButtonListener st]"
    and q: "map Some (alreadyPurchased_listeners st) = [alreadyPurchasedListener st]"
    and o: "length (overlays st) = 1"
    and d: "distinct (disposed st @ map fst (listeners st))"
    by (simp_all add: consistent_def)
  obtain x y where xy: "listeners st = [x, y]"
    using l2 by (cases "listeners st"; cases "tl (listeners st)") auto
  obtain cs where cs: "document st ''amp-access-fewcents-dialog'' = Some cs"
    using o by (cases "document st ''amp-access-fewcents-dialog''")
      (simp_all add: overlays_def dialog_children_def TAG_def)
  show ?thesis
  proof (cases "is_purchase (snd x)")
    case True
    then have "\<not> is_purchase (snd y)"
      using p xy by (auto simp add: purchase_listeners_def split: if_splits)
    then show ?thesis
      using True p q d xy cs that [of "fst x" "fst y" "snd x" "snd y" cs]
      by (auto simp add: purchase_listeners_def alreadyPurchased_listeners_def)
  next
    case False
    then have "is_purchase (snd y)"
      using p xy by (auto simp add: purchase_listeners_def split: if_splits)
    then show ?thesis
      using False p q d xy cs that [of "fst y" "fst x" "snd y" "snd x" cs]
      by (auto simp add: purchase_listeners_def alreadyPurchased_listeners_def)
  qed
qed

lemma emptyContainer_nonempty:
  assumes "consistent st" and "\<not> containerEmpty st"
  obtains a b where
    "purchaseButtonListener st = Some a" "alreadyPurchasedListener st = Some b"
    "fst (emptyContainer st) = AfterMutate"
    "listeners (snd (emptyContainer st)) = []"
    "disposed (snd (emptyContainer st)) = disposed st @ [a, b]"
    "purchaseButtonListener (snd (emptyContainer st)) = None"
    "alreadyPurchasedListener (snd (emptyContainer st)) = None"
    "registered (snd (emptyContainer st)) = registered st"
    "containerEmpty (snd (emptyContainer st)) = False"
    "set (disposed st @ [a, b]) = {..<registered st}"
    "distinct (disposed st @ [a, b])"
proof -
  obtain a b ha hb cs where f:
    "purchaseButtonListener st = Some a" "alreadyPurchasedListener st = Some b"
    "set (listeners st) = {(a, ha), (b, hb)}" "a \<noteq> b"
    "a \<notin> set (disposed st)" "b \<notin> set (disposed st)"
    using consistent_nonempty [OF assms] by metis
  have e: "filter (\<lambda>e. fst e \<noteq> b) (filter (\<lambda>e. fst e \<noteq> a) (listeners st)) = []"
    using f(3) by (auto simp add: filter_empty_conv)
  have r: "set (disposed st @ map fst (listeners st)) = {..<registered st}"
    and d: "distinct (disposed st)"
    using assms(1) by (simp_all add: consistent_def)
  have s: "set (disposed st @ [a, b]) = {..<registered st}"
    using r f(3) by auto
  show ?thesis
    using assms(2) f e s d
    by (intro that [of a b]) (simp_all add: emptyContainer_def dispose_def Let_def)
qed

lemma consistent_emptyContainer_settled:
  assumes "consistent st"
  shows "consistent (emptyContainer_settled st)"
proof (cases "containerEmpty st")
  case True
  then show ?thesis using assms by (simp add: emptyContainer_settled_empty)
next
  case False
  obtain a b where f:
    "fst (emptyContainer st) = AfterMutate"
    "listeners (snd (emptyContainer st)) = []"
    "disposed (snd (emptyContainer st)) = disposed st @ [a, b]"
    "purchaseButtonListener (snd (emptyContainer st)) = None"
    "alreadyPurchasedListener (snd (emptyContainer st)) = None"
    "registered (snd (emptyContainer st)) = registered st"
    "set (disposed st @ [a, b]) = {..<registered st}"
    "distinct (disposed st @ [a, b])"
    using emptyContainer_nonempty [OF assms False] by metis
  obtain s1 where e: "emptyContainer st = (AfterMutate, s1)"
    using f(1) by (cases "emptyContainer st") simp
  have g: "s1 = snd (emptyContainer st)" by (simp add: e)
  obtain cs where "document st ''amp-access-fewcents-dialog'' = Some cs"
    using consistent_nonempty [OF assms False] by metis
  then have "document s1 ''amp-access-fewcents-dialog'' \<noteq> None"
    using document_emptyContainer [of st] by (simp add: e)
  then have c: "getContainer (s1\<lparr>containerEmpty := True, innerContainer := None\<rparr>)
                  = Inr ''amp-access-fewcents-dialog''"
    by (simp add: getContainer_present)
  show ?thesis
    using f(2-8) unfolding g [symmetric]
    by (simp add: emptyContainer_settled_def e emptyContainer_mutator_def c report_def
        removeChildren_def consistent_def overlays_def dialog_children_def TAG_def Let_def)
qed

lemma consistent_renderPurchaseOverlay:
  assumes "consistent st" and "containerEmpty st"
  shows "consistent (report (renderPurchaseOverlay st))"
proof (cases "document st ''amp-access-fewcents-dialog''")
  case None
  then show ?thesis
    using assms consistent_fields [of "st\<lparr>unhandled := u\<rparr>" st for u]
    by (simp add: renderPurchaseOverlay_absent report_def)
next
  case (Some cs)
  show ?thesis
  proof (cases "price_text (purchaseConfig st)")
    case (Inl e)
    have "consistent (s\<lparr>unhandled := u\<rparr>) = consistent s" for s u
      by (rule consistent_fields) simp_all
    moreover have "consistent (st\<lparr>innerContainer := i\<rparr>) = consistent st" for i
      by (rule consistent_fields) simp_all
    ultimately show ?thesis
      using assms Some Inl by (simp add: renderPurchaseOverlay_throws report_def)
  next
    case (Inr p)
    note r = renderPurchaseOverlay_completes [OF Some Inr]
    obtain s1 where s1: "renderPurchaseOverlay st = (None, s1)"
      using r(1) by (cases "renderPurchaseOverlay st") simp
    have g: "snd (renderPurchaseOverlay st) = s1" by (simp add: s1)
    obtain ov where ov: "className ov = ''amp-access-fewcents-container''"
        "document s1 = (document st)(''amp-access-fewcents-dialog'' \<mapsto> cs @ [ov])"
      using r(2) unfolding g by blast
    have o: "overlays st = []" and l: "listeners st = []"
      and d: "distinct (disposed st)" and n: "set (disposed st) = {..<registered st}"
      using assms by (auto simp add: consistent_def)
    have "consistent s1"
      using r(3-7,9) ov o l d n Some unfolding g
      by (auto simp add: consistent_def overlays_def dialog_children_def purchase_listeners_def
          alreadyPurchased_listeners_def TAG_def lessThan_Suc)
    then show ?thesis by (simp add: s1 report_def)
  qed
qed

lemma getPurchaseConfig_state:
  "snd (getPurchaseConfig env st) = st\<lparr>calls := calls (snd (getPurchaseConfig env st))\<rparr>"
  by (simp add: getPurchaseConfig_def Let_def split: sum.splits)

lemma consistent_calls [simp]: "consistent (st\<lparr>calls := c\<rparr>) = consistent st"
  by (rule consistent_fields) simp_all

lemma consistent_purchaseConfig [simp]: "consistent (st\<lparr>purchaseConfig := v\<rparr>) = consistent st"
  by (rule consistent_fields) simp_all

lemma consistent_denial:
  assumes "consistent st"
  shows "consistent (run_deferred (if fst (emptyContainer st) = AfterMutate then MutateThenRender else Render)
                       (snd (emptyContainer st)))"
proof (cases "containerEmpty st")
  case True
  then show ?thesis
    using consistent_renderPurchaseOverlay [OF assms True]
    by (simp add: emptyContainer_def run_deferred_def)
next
  case False
  obtain s1 where e: "emptyContainer st = (AfterMutate, s1)"
    using False by (simp add: emptyContainer_def Let_def)
  obtain cs where "document st ''amp-access-fewcents-dialog'' = Some cs"
    using consistent_nonempty [OF assms False] by metis
  then have "document s1 ''amp-access-fewcents-dialog'' \<noteq> None"
    using document_emptyContainer [of st] by (simp add: e)
  then have c: "getContainer (s1\<lparr>containerEmpty := True, innerContainer := None\<rparr>)
                  = Inr ''amp-access-fewcents-dialog''"
    by (simp add: getContainer_present)
  have m: "emptyContainer_mutator s1 = (None, emptyContainer_settled st)"
    by (simp add: emptyContainer_settled_def e emptyContainer_mutator_def c report_def Let_def)
  have "consistent (report (renderPurchaseOverlay (emptyContainer_settled st)))"
    using consistent_renderPurchaseOverlay [OF consistent_emptyContainer_settled [OF assms]
        containerEmpty_emptyContainer_settled] .
  then show ?thesis
    by (simp add: e run_deferred_def m)
qed

lemma consistent_authorize_settled:
  assumes "consistent st"
  shows "consistent (snd (authorize_settled env st))"
proof -
  obtain r s0 where g: "getPurchaseConfig env st = (r, s0)" by (cases "getPurchaseConfig env st")
  have s0: "s0 = st\<lparr>calls := calls s0\<rparr>"
    using getPurchaseConfig_state [of env st] by (simp add: g)
  have c0: "consistent s0" using assms s0 consistent_calls [of "calls s0" st] by simp
  have ok: "consistent (run_deferred (if fst (emptyContainer s0) = AfterMutate then Mutate else Nothing)
                         (snd (emptyContainer s0)))"
    using consistent_emptyContainer_settled [OF c0] by (simp add: run_deferred_after_emptyContainer)
  have deny: "consistent (run_deferred
       (if fst (emptyContainer (s0\<lparr>purchaseConfig := v\<rparr>)) = AfterMutate then MutateThenRender else Render)
       (snd (emptyContainer (s0\<lparr>purchaseConfig := v\<rparr>))))" for v
    using consistent_denial [of "s0\<lparr>purchaseConfig := v\<rparr>"] c0 by simp
  show ?thesis
  proof (cases r)
    case (Inr response)
    show ?thesis
      using c0 ok
      by (cases "emptyContainer s0")
         (auto simp add: authorize_settled_def authorize_def g Inr run_deferred_def Let_def
          split: sum.splits)
  next
    case (Inl err)
    show ?thesis
    proof (cases err)
      case (HttpError response)
      show ?thesis
        using c0 deny [of "case json response of Inl e \<Rightarrow> JUndefined | Inr v \<Rightarrow> v"]
        by (cases "emptyContainer (s0\<lparr>purchaseConfig := case json response of Inl e \<Rightarrow> JUndefined | Inr v \<Rightarrow> v\<rparr>)")
           (auto simp add: authorize_settled_def authorize_def g Inl HttpError run_deferred_def Let_def)
    qed (use c0 in \<open>simp_all add: authorize_settled_def authorize_def g Inl run_deferred_def\<close>)
  qed
qed

lemma consistent_authorize_all:
  "consistent st \<Longrightarrow> consistent (authorize_all envs st)"
  by (induction envs arbitrary: st) (simp_all add: consistent_authorize_settled)

lemma consistent_constructor:
  "overlays (constructor config doc) = [] \<Longrightarrow> consistent (constructor config doc)"
  by (simp add: consistent_def) (simp add: constructor_def)

lemma emptyContainer_settled_keeps:
  "purchaseConfig (emptyContainer_settled st) = purchaseConfig st"
  "document st ''amp-access-fewcents-dialog'' \<noteq> None \<Longrightarrow>
     document (emptyContainer_settled st) ''amp-access-fewcents-dialog'' \<noteq> None"
proof -
  show "purchaseConfig (emptyContainer_settled st) = purchaseConfig st"
    by (simp add: emptyContainer_settled_def emptyContainer_def emptyContainer_mutator_def
        report_def removeChildren_def dispose_def Let_def split: sum.splits option.splits)
  show "document (emptyContainer_settled st) ''amp-access-fewcents-dialog'' \<noteq> None"
    if d: "document st ''amp-access-fewcents-dialog'' \<noteq> None"
  proof (cases "containerEmpty st")
    case True
    then show ?thesis using d by (simp add: emptyContainer_settled_empty)
  next
    case False
    then show ?thesis using emptyContainer_settled_clears [OF False d] by simp
  qed
qed

lemma denial_renders:
  assumes "consistent st" and "document st ''amp-access-fewcents-dialog'' \<noteq> None"
  shows "\<not> containerEmpty (snd (authorize_settled
           (example_env (Some (Response 402 (Some example_purchase_config))) 10) st))
       \<and> document (snd (authorize_settled
           (example_env (Some (Response 402 (Some example_purchase_config))) 10) st))
            ''amp-access-fewcents-dialog'' \<noteq> None"
proof -
  let ?E = "example_env (Some (Response 402 (Some example_purchase_config))) 10"
  let ?u = "purchaseConfigBaseUrl st @ ''&rid=7''"
  let ?s = "emptyContainer_settled (st\<lparr>calls := calls st @ round_trip st ?u ?u,
                  purchaseConfig := example_purchase_config\<rparr>)"
  have a: "authorize_settled ?E st =
      (Inr (JObj [(''access'', JBool False)]), report (renderPurchaseOverlay ?s))"
    using authorize_settled_denied [of ?E st ?u ?u 10 "Some example_purchase_config"] assms(2)
    by simp
  obtain cs where d: "document ?s ''amp-access-fewcents-dialog'' = Some cs"
    using emptyContainer_settled_keeps(2) [of "st\<lparr>calls := calls st @ round_trip st ?u ?u,
                  purchaseConfig := example_purchase_config\<rparr>"] assms(2) by auto
  have p: "price_text (purchaseConfig ?s) = Inr [CurrencyFormat ''en-EN'' ''EUR'' (JNum 5), Lit ''/article'']"
    by (simp add: emptyContainer_settled_keeps(1) example_price_text)
  note r = renderPurchaseOverlay_completes [OF d p]
  obtain s1 where s1: "renderPurchaseOverlay ?s = (None, s1)"
    using r(1) by (cases "renderPurchaseOverlay ?s") simp
  have g: "snd (renderPurchaseOverlay ?s) = s1" by (simp add: s1)
  show ?thesis
    using r(2,7) unfolding g by (auto simp add: a s1 report_def)
qed

lemma emptyContainer_settled_removals:
  "length (filter is_dom_call (calls (emptyContainer_settled st)))
     \<le> Suc (length (filter is_dom_call (calls st)))"
  by (simp add: emptyContainer_settled_def emptyContainer_def emptyContainer_mutator_def
      report_def removeChildren_def dispose_def Let_def split: sum.splits option.splits)

lemma consistent_counts:
  assumes "consistent st"
  shows "length (overlays st) \<le> 1 \<and> length (purchase_listeners st) \<le> 1
       \<and> length (alreadyPurchased_listeners st) \<le> 1"
proof (cases "containerEmpty st")
  case True
  then show ?thesis
    using assms by (simp add: consistent_def purchase_listeners_def alreadyPurchased_listeners_def)
next
  case False
  then have "length (map Some (purchase_listeners st)) = 1"
    "length (map Some (alreadyPurchased_listeners st)) = 1" "length (overlays st) = 1"
    using assms by (simp_all add: consistent_def)
  then show ?thesis by simp
qed

lemma consistent_disposed:
  assumes "consistent st"
  shows "distinct (disposed st)
       \<and> (\<forall>l<registered st. (l \<in> set (disposed st)) \<noteq> (l \<in> fst ` set (listeners st)))"
  using assms by (auto simp add: consistent_def)

lemma example_vendor_consistent: "consistent example_vendor"
  unfolding example_vendor_def
  by (rule consistent_constructor)
     (simp add: overlays_def dialog_children_def constructor_def example_document_def TAG_def)

lemma rendered_counts:
  assumes "consistent st" and "\<not> containerEmpty st"
  shows "length (purchase_listeners st) = 1 \<and> length (alreadyPurchased_listeners st) = 1
       \<and> length (overlays st) = 1"
proof -
  have "length (map Some (purchase_listeners st)) = 1"
    "length (map Some (alreadyPurchased_listeners st)) = 1" "length (overlays st) = 1"
    using assms by (simp_all add: consistent_def)
  then show ?thesis by simp
qed

lemma purchaseConfig_emptyContainer [simp]:
  "purchaseConfig (snd (emptyContainer st)) = purchaseConfig st"
  by (simp add: emptyContainer_def dispose_def Let_def split: option.splits)

text \<open>
  Nothing in \<^verbatim>\<open>authorize\<close> waits for the deferred work of an earlier call. When a second
  402 answer is handled before the rendering chained by the first has run, both calls see
  an empty container, both renderings run, and two overlays with their listeners end up in
  the container; the fields hold the disposers of the second only.
\<close>

lemma reentrant_denials_duplicate_overlay:
  "fst (snd (authorize (example_env (Some (Response 402 (Some example_purchase_config))) 10)
          example_vendor)) = Render
   \<and> fst (snd (authorize (example_env (Some (Response 402 (Some example_purchase_config))) 10)
          (snd (snd (authorize (example_env (Some (Response 402 (Some example_purchase_config))) 10)
             example_vendor))))) = Render
   \<and> length (overlays (run_deferred Render (run_deferred Render
        (snd (snd (authorize (example_env (Some (Response 402 (Some example_purchase_config))) 10)
          (snd (snd (authorize (example_env (Some (Response 402 (Some example_purchase_config))) 10)
             example_vendor))))))))) = 2
   \<and> purchase_listeners (run_deferred Render (run_deferred Render
        (snd (snd (authorize (example_env (Some (Response 402 (Some example_purchase_config))) 10)
          (snd (snd (authorize (example_env (Some (Response 402 (Some example_purchase_config))) 10)
             example_vendor)))))))) = [0, 2]"
proof -
  let ?E = "example_env (Some (Response 402 (Some example_purchase_config))) 10"
  let ?u = "purchaseConfigBaseUrl example_vendor @ ''&rid=7''"
  let ?s1 = "example_vendor\<lparr>calls := round_trip example_vendor ?u ?u,
               purchaseConfig := example_purchase_config\<rparr>"
  have a1: "authorize ?E example_vendor = (Inr (JObj [(''access'', JBool False)]), Render, ?s1)"
    by (rule example_denial)
  define s2 where
    "s2 = ?s1\<lparr>calls := calls ?s1 @ round_trip ?s1 ?u ?u, purchaseConfig := example_purchase_config\<rparr>"
  have a2: "authorize ?E ?s1 = (Inr (JObj [(''access'', JBool False)]), Render, s2)"
    using authorize_denied [of ?E ?s1 ?u ?u 10 "Some example_purchase_config"]
    by (simp add: s2_def example_vendor_def constructor_def emptyContainer_def)
  have p: "price_text example_purchase_config
      = Inr [CurrencyFormat ''en-EN'' ''EUR'' (JNum 5), Lit ''/article'']"
    by (rule example_price_text)
  have d2: "document s2 ''amp-access-fewcents-dialog'' = Some []" by (simp add: s2_def)
  have p2: "price_text (purchaseConfig s2)
      = Inr [CurrencyFormat ''en-EN'' ''EUR'' (JNum 5), Lit ''/article'']"
    using p by (simp add: s2_def)
  have i2: "listeners s2 = []" "registered s2 = 0" "purchaseConfig s2 = example_purchase_config"
    by (simp_all add: s2_def)
  note r = renderPurchaseOverlay_completes [OF d2 p2]
  obtain s3 where s3: "renderPurchaseOverlay s2 = (None, s3)"
    using r(1) by (cases "renderPurchaseOverlay s2") simp
  have g3: "snd (renderPurchaseOverlay s2) = s3" by (simp add: s3)
  obtain ov where ov: "className ov = ''amp-access-fewcents-container''"
      "document s3 = (document s2)(''amp-access-fewcents-dialog'' \<mapsto> [] @ [ov])"
    using r(2) unfolding g3 by blast
  have d3: "document s3 ''amp-access-fewcents-dialog'' = Some [ov]" using ov(2) by simp
  have p3: "price_text (purchaseConfig s3)
      = Inr [CurrencyFormat ''en-EN'' ''EUR'' (JNum 5), Lit ''/article'']"
    using r(11) p i2 unfolding g3 by simp
  note r' = renderPurchaseOverlay_completes [OF d3 p3]
  obtain s4 where s4: "renderPurchaseOverlay s3 = (None, s4)"
    using r'(1) by (cases "renderPurchaseOverlay s3") simp
  have g4: "snd (renderPurchaseOverlay s3) = s4" by (simp add: s4)
  obtain ov' where ov': "className ov' = ''amp-access-fewcents-container''"
      "document s4 = (document s3)(''amp-access-fewcents-dialog'' \<mapsto> [ov] @ [ov'])"
    using r'(2) unfolding g4 by blast
  have l3: "listeners s3 = [(0, PurchaseClick),
       (1, AlreadyPurchasedClick (opt_prop example_purchase_config ''identify_url''))]"
    "registered s3 = 2"
    using r(3,4) i2 unfolding g3 by (simp_all add: numeral_2_eq_2)
  have l4: "listeners s4 = [(0, PurchaseClick),
       (1, AlreadyPurchasedClick (opt_prop example_purchase_config ''identify_url'')),
       (2, PurchaseClick),
       (3, AlreadyPurchasedClick (opt_prop example_purchase_config ''identify_url''))]"
    using r'(3) r(11) l3 i2 unfolding g4 g3 by (simp add: numeral_3_eq_3)
  have f: "run_deferred Render (run_deferred Render s2) = s4"
    by (simp add: run_deferred_def s3 s4 report_def)
  show ?thesis
    unfolding a1 a2 snd_conv fst_conv f
    by (simp add: overlays_def dialog_children_def purchase_listeners_def TAG_def ov ov' l4)
qed

lemma purchaseConfigBaseUrl_emptyContainer_settled [simp]:
  "purchaseConfigBaseUrl (emptyContainer_settled st) = purchaseConfigBaseUrl st"
  by (simp add: emptyContainer_settled_def emptyContainer_def emptyContainer_mutator_def
      report_def removeChildren_def dispose_def Let_def split: sum.splits option.splits)

lemma purchaseConfigBaseUrl_renderPurchaseOverlay [simp]:
  "purchaseConfigBaseUrl (snd (renderPurchaseOverlay st)) = purchaseConfigBaseUrl st"
proof (cases "document st ''amp-access-fewcents-dialog''")
  case None
  then show ?thesis by (simp add: renderPurchaseOverlay_absent)
next
  case (Some cs)
  show ?thesis
  proof (cases "price_text (purchaseConfig st)")
    case (Inl e)
    then show ?thesis using Some by (simp add: renderPurchaseOverlay_throws)
  next
    case (Inr p)
    obtain kvs where k: "purchaseConfig st = JObj kvs"
      using price_text_object [OF Inr] by blast
    have g: "getContainer st = Inr ''amp-access-fewcents-dialog''"
      using Some by (simp add: getContainer_present)
    from Inr k have p: "price_text (JObj kvs) = Inr p" by simp
    show ?thesis
      by (simp add: renderPurchaseOverlay_def g Let_def createAlreadyPurchasedLink_def listen_def
          appendChild_def split_def k p)
  qed
qed

lemma purchaseConfigBaseUrl_report [simp]:
  "purchaseConfigBaseUrl (report r) = purchaseConfigBaseUrl (snd r)"
  by (cases r) (simp add: report_def split: option.splits)

lemma renderable_denial_renders:
  assumes "consistent st" and "document st ''amp-access-fewcents-dialog'' \<noteq> None"
      and "renderable_denial env (purchaseConfigBaseUrl st)"
  shows "\<not> containerEmpty (snd (authorize_settled env st))
       \<and> document (snd (authorize_settled env st)) ''amp-access-fewcents-dialog'' \<noteq> None
       \<and> purchaseConfigBaseUrl (snd (authorize_settled env st)) = purchaseConfigBaseUrl st
       \<and> fst (authorize_settled env st) = Inr (JObj [(''access'', JBool False)])"
proof -
  obtain u1 where h1: "buildUrl env (JStr (purchaseConfigBaseUrl st)) False = Inr u1"
    using assms(3)
    by (cases "buildUrl env (JStr (purchaseConfigBaseUrl st)) False")
       (simp_all add: renderable_denial_def)
  obtain u2 where h2: "getLoginUrl env u1 = Inr u2"
    using assms(3) h1 by (cases "getLoginUrl env u1") (simp_all add: renderable_denial_def)
  obtain t x where f: "fetch env u2 = (t, x)" by (cases "fetch env u2")
  obtain r where x: "x = Some r" and t: "t \<le> 3000" and s: "status r = 402"
      and b: "case body r of None \<Rightarrow> False | Some v \<Rightarrow> renderable v"
    using assms(3) h1 h2 f
    by (cases x) (simp_all add: renderable_denial_def AUTHORIZATION_TIMEOUT_def)
  obtain v where v: "body r = Some v" and rv: "renderable v"
    using b by (cases "body r") simp_all
  obtain p where h5: "price_text v = Inr p"
    using rv by (cases "price_text v") (simp_all add: renderable_def)
  have "r = Response 402 (Some v)" using s v by (cases r) simp
  then have h3: "fetch env u2 = (t, Some (Response 402 (Some v)))" using f x by simp
  note h = h1 h2 h3 t h5
  define s0 where "s0 = emptyContainer_settled
      (st\<lparr>calls := calls st @ round_trip st u1 u2, purchaseConfig := v\<rparr>)"
  have a: "authorize_settled env st =
      (Inr (JObj [(''access'', JBool False)]), report (renderPurchaseOverlay s0))"
    using authorize_settled_denied [OF h(1-4) assms(2)] by (simp add: s0_def)
  obtain cs where d: "document s0 ''amp-access-fewcents-dialog'' = Some cs"
    using emptyContainer_settled_keeps(2)
      [of "st\<lparr>calls := calls st @ round_trip st u1 u2, purchaseConfig := v\<rparr>"] assms(2)
    by (auto simp add: s0_def)
  have p: "price_text (purchaseConfig s0) = Inr p"
    by (simp add: s0_def emptyContainer_settled_keeps(1) h(5))
  have u: "purchaseConfigBaseUrl s0 = purchaseConfigBaseUrl st" by (simp add: s0_def)
  note r = renderPurchaseOverlay_completes [OF d p]
  obtain s1 where s1: "renderPurchaseOverlay s0 = (None, s1)"
    using r(1) by (cases "renderPurchaseOverlay s0") simp
  have g: "snd (renderPurchaseOverlay s0) = s1" by (simp add: s1)
  have "purchaseConfigBaseUrl s1 = purchaseConfigBaseUrl st"
    using purchaseConfigBaseUrl_renderPurchaseOverlay [of s0] u unfolding g by simp
  then show ?thesis
    using r(2,7) unfolding g by (auto simp add: a s1 report_def)
qed

lemma renderable_denials_render:
  assumes "consistent st" and "document st ''amp-access-fewcents-dialog'' \<noteq> None"
      and "\<forall>e \<in> set envs. renderable_denial e (purchaseConfigBaseUrl st)"
      and "envs \<noteq> []"
  shows "\<not> containerEmpty (authorize_all envs st)"
  using assms
proof (induction envs arbitrary: st)
  case Nil
  then show ?case by simp
next
  case (Cons e es)
  let ?s = "snd (authorize_settled e st)"
  have r: "\<not> containerEmpty ?s" "document ?s ''amp-access-fewcents-dialog'' \<noteq> None"
      "purchaseConfigBaseUrl ?s = purchaseConfigBaseUrl st"
    using renderable_denial_renders [OF Cons.prems(1,2), of e] Cons.prems(3) by simp_all
  have c: "consistent ?s" using consistent_authorize_settled [OF Cons.prems(1)] .
  show ?case
  proof (cases es)
    case Nil
    then show ?thesis using r(1) by simp
  next
    case (Cons e' es')
    then have "es \<noteq> []" by simp
    moreover have "\<forall>x \<in> set es. renderable_denial x (purchaseConfigBaseUrl ?s)"
      using Cons.prems(3) r(3) by simp
    ultimately show ?thesis
      using Cons.IH [OF c r(2)] by simp
  qed
qed

lemma at_most_one_fields:
  assumes "listeners s = listeners st"
      and "document s ''amp-access-fewcents-dialog'' = document st ''amp-access-fewcents-dialog''"
  shows "at_most_one s = at_most_one st"
  using assms
  by (simp add: at_most_one_def overlays_def dialog_children_def purchase_listeners_def
      alreadyPurchased_listeners_def TAG_def)

lemma at_most_one_consistent: "consistent st \<Longrightarrow> at_most_one st"
  using consistent_counts [of st] by (simp add: at_most_one_def)

lemma at_most_one_emptyContainer:
  assumes "consistent st"
  shows "at_most_one (snd (emptyContainer st))"
proof (cases "containerEmpty st")
  case True
  then show ?thesis using at_most_one_consistent [OF assms] by (simp add: emptyContainer_def)
next
  case False
  have l: "listeners (snd (emptyContainer st)) = []"
    using emptyContainer_nonempty [OF assms False] by metis
  have "overlays (snd (emptyContainer st)) = overlays st"
    by (simp add: overlays_def dialog_children_def)
  then show ?thesis
    using at_most_one_consistent [OF assms] l
    by (simp add: at_most_one_def purchase_listeners_def alreadyPurchased_listeners_def)
qed

lemma at_most_one_authorize:
  assumes "consistent st"
  shows "at_most_one (snd (snd (authorize env st)))"
proof -
  obtain r s0 where g: "getPurchaseConfig env st = (r, s0)" by (cases "getPurchaseConfig env st")
  have s0: "s0 = st\<lparr>calls := calls s0\<rparr>"
    using getPurchaseConfig_state [of env st] by (simp add: g)
  have c0: "consistent s0" using assms s0 consistent_calls [of "calls s0" st] by simp
  have a0: "at_most_one s0" using at_most_one_consistent [OF c0] .
  have e0: "at_most_one (snd (emptyContainer s0))" using at_most_one_emptyContainer [OF c0] .
  have ev: "at_most_one (snd (emptyContainer (s0\<lparr>purchaseConfig := v\<rparr>)))" for v
    using at_most_one_emptyContainer [of "s0\<lparr>purchaseConfig := v\<rparr>"] c0 by simp
  show ?thesis
  proof (cases r)
    case (Inr response)
    show ?thesis
      using a0 e0
      by (cases "emptyContainer s0")
         (auto simp add: authorize_def g Inr Let_def split: sum.splits)
  next
    case (Inl err)
    show ?thesis
    proof (cases err)
      case (HttpError response)
      show ?thesis
        using a0 ev [of "case json response of Inl e \<Rightarrow> JUndefined | Inr v \<Rightarrow> v"]
        by (cases "emptyContainer (s0\<lparr>purchaseConfig := case json response of Inl e \<Rightarrow> JUndefined | Inr v \<Rightarrow> v\<rparr>)")
           (auto simp add: authorize_def g Inl HttpError Let_def)
    qed (use a0 in \<open>simp_all add: authorize_def g Inl\<close>)
  qed
qed

lemma emptyContainer_after_settled:
  "emptyContainer (emptyContainer_settled st) = (Resolved, emptyContainer_settled st)"
  using containerEmpty_emptyContainer_settled [of st] by (simp add: emptyContainer_def)

lemma emptyContainer_in_a_row:
  assumes "\<not> containerEmpty st"
  shows "fst (emptyContainer st) = AfterMutate
       \<and> fst (emptyContainer (snd (emptyContainer st))) = AfterMutate
       \<and> calls (snd (emptyContainer (snd (emptyContainer st)))) = calls st
       \<and> document (snd (emptyContainer (snd (emptyContainer st)))) = document st"
proof -
  have n: "\<not> containerEmpty (snd (emptyContainer s))" if "\<not> containerEmpty s" for s
    using that by (simp add: emptyContainer_def dispose_def Let_def split: option.splits)
  have f: "fst (emptyContainer s) = AfterMutate" if "\<not> containerEmpty s" for s
    using that by (simp add: emptyContainer_def Let_def)
  show ?thesis
    using f [OF assms] f [OF n [OF assms]] by simp
qed

lemma emptyContainer_mutator_removes:
  assumes "document st ''amp-access-fewcents-dialog'' \<noteq> None"
  shows "calls (snd (emptyContainer_mutator st)) =
           calls st @ [CallRemoveChildren ''amp-access-fewcents-dialog'']
       \<and> document (snd (emptyContainer_mutator st)) ''amp-access-fewcents-dialog'' = Some []"
proof -
  have "getContainer (st\<lparr>containerEmpty := True, innerContainer := None\<rparr>)
          = Inr ''amp-access-fewcents-dialog''"
    using assms by (simp add: getContainer_present)
  then show ?thesis
    by (simp add: emptyContainer_mutator_def removeChildren_def Let_def)
qed

lemma example_renderable_denial:
  "renderable_denial (example_env (Some (Response 402 (Some example_purchase_config))) 10) url"
  by (simp add: renderable_denial_def renderable_def example_price_text AUTHORIZATION_TIMEOUT_def)

lemma renderable_denial_renders_overlay:
  assumes "consistent st" and "document st ''amp-access-fewcents-dialog'' \<noteq> None"
      and "renderable_denial env (purchaseConfigBaseUrl st)"
  shows "fst (authorize_settled env st) = Inr (JObj [(''access'', JBool False)])
       \<and> length (overlays (snd (authorize_settled env st))) = 1
       \<and> length (purchase_listeners (snd (authorize_settled env st))) = 1
       \<and> length (alreadyPurchased_listeners (snd (authorize_settled env st))) = 1"
  using renderable_denial_renders [OF assms]
    rendered_counts [OF consistent_authorize_settled [OF assms(1)], of env]
  by simp

subsection \<open>Authorization outcomes\<close>

text \<open>
  Claim C1 does not hold of the code. A 402 answer whose body is not JSON is taken as an
  \<^verbatim>\<open>undefined\<close> purchase config without an error, the config is stored and \<^verbatim>\<open>authorize\<close>
  resolves with \<^verbatim>\<open>{access: false}\<close>; but the rendering chained to \<^verbatim>\<open>emptyContainer_\<close>
  throws a \<^verbatim>\<open>TypeError\<close>, so that the container stays empty: no overlay is in the document
  and no listener is registered. (From a 402 answer with a config that the price line can
  be built from, one overlay is rendered: \<open>renderable_denial_renders_overlay\<close>.)
\<close>

theorem denial_unparsable_body_renders_nothing:
  "fst (authorize_settled (example_env (Some (Response 402 None)) 10) example_vendor)
     = Inr (JObj [(''access'', JBool False)])
   \<and> purchaseConfig (snd (authorize_settled (example_env (Some (Response 402 None)) 10) example_vendor))
       = JUndefined
   \<and> dialog_children (snd (authorize_settled (example_env (Some (Response 402 None)) 10) example_vendor))
       = []
   \<and> listeners (snd (authorize_settled (example_env (Some (Response 402 None)) 10) example_vendor))
       = []
   \<and> containerEmpty (snd (authorize_settled (example_env (Some (Response 402 None)) 10) example_vendor))
   \<and> unhandled (snd (authorize_settled (example_env (Some (Response 402 None)) 10) example_vendor))
       = [TypeError]"
proof -
  let ?E = "example_env (Some (Response 402 None)) 10"
  let ?u = "purchaseConfigBaseUrl example_vendor @ ''&rid=7''"
  let ?s0 = "example_vendor\<lparr>calls := calls example_vendor @ round_trip example_vendor ?u ?u,
            purchaseConfig := JUndefined\<rparr>"
  have a: "authorize_settled ?E example_vendor =
      (Inr (JObj [(''access'', JBool False)]), report (renderPurchaseOverlay ?s0))"
    using authorize_settled_denied [of ?E example_vendor ?u ?u 10 None]
    by (simp add: emptyContainer_settled_empty)
  have d: "document ?s0 ''amp-access-fewcents-dialog'' \<noteq> None" by simp
  have p: "price_text (purchaseConfig ?s0) = Inl TypeError"
    by (simp add: price_text_def NumberFormat_currency_def)
  have t: "renderPurchaseOverlay ?s0 =
      (Some TypeError,
       ?s0\<lparr>innerContainer := Some (Element ''div'' ''amp-access-fewcents-container'' [] [])\<rparr>)"
    by (rule renderPurchaseOverlay_throws [OF d p])
  show ?thesis
    using a t by (simp add: report_def dialog_children_def TAG_def)
qed

text \<open>
  Claim C2, as amended. \<^verbatim>\<open>authorize\<close> reads \<^verbatim>\<open>status\<close> and \<^verbatim>\<open>access\<close> from the parsed JSON
  body, not from the HTTP response. When the request is answered with a 2xx status and a
  body that parses to a value other than \<^verbatim>\<open>null\<close> whose \<^verbatim>\<open>status\<close> property is not 204,
  \<^verbatim>\<open>authorize\<close> clears the overlay container and resolves with \<^verbatim>\<open>{access: a}\<close>, where
  \<open>a\<close> is the \<^verbatim>\<open>access\<close> property of the body.
\<close>

theorem authorize_success:
  assumes "buildUrl env (JStr (purchaseConfigBaseUrl st)) False = Inr u1"
      and "getLoginUrl env u1 = Inr u2"
      and "fetch env u2 = (t, Some (Response s (Some v)))"
      and "t \<le> 3000" and "200 \<le> s" and "s < 300"
      and "get_prop v ''status'' = Inr x" and "x \<noteq> JNum 204"
  shows "authorize_settled env st =
           (Inr (JObj [(''access'', opt_prop v ''access'')]),
            emptyContainer_settled (st\<lparr>calls := calls st @ round_trip st u1 u2\<rparr>))
         \<and> containerEmpty (snd (authorize_settled env st))
         \<and> (\<not> containerEmpty st \<longrightarrow> document st ''amp-access-fewcents-dialog'' \<noteq> None \<longrightarrow>
              document (snd (authorize_settled env st)) ''amp-access-fewcents-dialog'' = Some [])"
proof -
  let ?st0 = "st\<lparr>calls := calls st @ round_trip st u1 u2\<rparr>"
  have acc: "get_prop v ''access'' = Inr (opt_prop v ''access'')"
    using assms(7) by (cases v) simp_all
  obtain p s1 where e: "emptyContainer ?st0 = (p, s1)" by (cases "emptyContainer ?st0")
  have "authorize env st =
          (Inr (JObj [(''access'', opt_prop v ''access'')]),
           (if p = AfterMutate then Mutate else Nothing), s1)"
    using assms(7,8) by (simp add: authorize_def authorize_resolved [OF assms(1-6)] e acc)
  then have r: "authorize_settled env st =
          (Inr (JObj [(''access'', opt_prop v ''access'')]), emptyContainer_settled ?st0)"
    using run_deferred_after_emptyContainer [of ?st0] by (simp add: authorize_settled_def e)
  have d: "document (emptyContainer_settled ?st0) ''amp-access-fewcents-dialog'' = Some []"
    if "\<not> containerEmpty st" "document st ''amp-access-fewcents-dialog'' \<noteq> None"
    using that emptyContainer_settled_clears [of ?st0] by simp
  show ?thesis
    using r d by (simp add: containerEmpty_emptyContainer_settled)
qed

theorem authorize_success_witness:
  "authorize_settled (example_env (Some (Response 200 (Some (JObj [(''access'', JBool True)])))) 10)
         example_vendor
     = (Inr (JObj [(''access'', JBool True)]),
        example_vendor\<lparr>calls := round_trip example_vendor
            (purchaseConfigBaseUrl example_vendor @ ''&rid=7'')
            (purchaseConfigBaseUrl example_vendor @ ''&rid=7'')\<rparr>)"
proof -
  let ?v = "JObj [(''access'', JBool True)]"
  let ?E = "example_env (Some (Response 200 (Some ?v))) 10"
  let ?u = "purchaseConfigBaseUrl example_vendor @ ''&rid=7''"
  have h1: "buildUrl ?E (JStr (purchaseConfigBaseUrl example_vendor)) False = Inr ?u" by simp
  have h2: "getLoginUrl ?E ?u = Inr ?u" by simp
  have h3: "fetch ?E ?u = (10, Some (Response 200 (Some ?v)))" by simp
  have h4: "(10::nat) \<le> 3000" "(200::nat) \<le> 200" "(200::nat) < 300" by simp_all
  have h5: "get_prop ?v ''status'' = Inr JUndefined" "JUndefined \<noteq> JNum 204"
    by (simp_all add: own_prop_def)
  show ?thesis
    using authorize_success [OF h1 h2 h3 h4 h5]
    by (simp add: own_prop_def emptyContainer_settled_empty)
qed

text \<open>
  The claim as stated fails: a 200 response whose body is \<^verbatim>\<open>{"access": false}\<close> resolves
  with \<^verbatim>\<open>{access: false}\<close>.
\<close>

theorem authorize_success_counterexample:
  "fst (authorize (example_env (Some (Response 200 (Some (JObj [(''access'', JBool False)])))) 10)
         example_vendor)
     = Inr (JObj [(''access'', JBool False)])
   \<and> fst (authorize (example_env (Some (Response 200 (Some (JObj [(''access'', JBool False)])))) 10)
         example_vendor)
     \<noteq> Inr (JObj [(''access'', JBool True)])"
  by (simp add: authorize_def authorize_resolved own_prop_def emptyContainer_def)

text \<open>
  Claim C3, as amended. When the request is answered with a 2xx status and a JSON body
  whose \<^verbatim>\<open>status\<close> property is the number 204, \<^verbatim>\<open>authorize\<close> rejects with the user error
  that no configuration matches, and changes nothing but the record of calls. A response
  with a status that is neither 2xx nor 402 rejects with the error that carries it, and a
  transport failure with its error, both unchanged and with the state likewise untouched.
\<close>

theorem authorize_rejections:
  assumes "buildUrl env (JStr (purchaseConfigBaseUrl st)) False = Inr u1"
      and "getLoginUrl env u1 = Inr u2"
      and "fetch env u2 = (t, x)"
      and "t \<le> 3000"
  shows "(\<forall>s v. x = Some (Response s (Some v)) \<and> 200 \<le> s \<and> s < 300
               \<and> get_prop v ''status'' = Inr (JNum 204) \<longrightarrow>
            authorize env st =
              (Inl (UserError NO_CONFIGURATION), Nothing,
               st\<lparr>calls := calls st @ round_trip st u1 u2\<rparr>))
       \<and> (\<forall>r. x = Some r \<and> \<not> (200 \<le> status r \<and> status r < 300) \<and> status r \<noteq> 402 \<longrightarrow>
            authorize env st =
              (Inl (HttpError r), Nothing, st\<lparr>calls := calls st @ round_trip st u1 u2\<rparr>))
       \<and> (x = None \<longrightarrow>
            authorize env st =
              (Inl (HostError ''network failure''), Nothing,
               st\<lparr>calls := calls st @ round_trip st u1 u2\<rparr>))"
proof (intro conjI allI impI)
  fix s v
  assume "x = Some (Response s (Some v)) \<and> 200 \<le> s \<and> s < 300
            \<and> get_prop v ''status'' = Inr (JNum 204)"
  then show "authorize env st =
      (Inl (UserError NO_CONFIGURATION), Nothing, st\<lparr>calls := calls st @ round_trip st u1 u2\<rparr>)"
    using assms by (simp add: authorize_def authorize_resolved)
next
  fix r
  assume "x = Some r \<and> \<not> (200 \<le> status r \<and> status r < 300) \<and> status r \<noteq> 402"
  then show "authorize env st =
      (Inl (HttpError r), Nothing, st\<lparr>calls := calls st @ round_trip st u1 u2\<rparr>)"
    using assms
    by (auto simp add: authorize_def getPurchaseConfig_fetched fetchJson_def timeoutPromise_def
        AUTHORIZATION_TIMEOUT_def)
next
  assume "x = None"
  then show "authorize env st =
      (Inl (HostError ''network failure''), Nothing, st\<lparr>calls := calls st @ round_trip st u1 u2\<rparr>)"
    using assms
    by (simp add: authorize_def getPurchaseConfig_fetched fetchJson_def timeoutPromise_def
        AUTHORIZATION_TIMEOUT_def)
qed

theorem authorize_rejections_witness:
  "fst (authorize (example_env (Some (Response 200 (Some (JObj [(''status'', JNum 204)])))) 10)
         example_vendor) = Inl (UserError NO_CONFIGURATION)
   \<and> fst (authorize (example_env (Some (Response 500 None)) 10) example_vendor)
       = Inl (HttpError (Response 500 None))
   \<and> fst (authorize (example_env None 10) example_vendor) = Inl (HostError ''network failure'')"
proof -
  let ?u = "purchaseConfigBaseUrl example_vendor @ ''&rid=7''"
  have h1: "buildUrl (example_env r 10) (JStr (purchaseConfigBaseUrl example_vendor)) False = Inr ?u" for r
    by simp
  have h2: "getLoginUrl (example_env r 10) ?u = Inr ?u" for r by simp
  have h3: "fetch (example_env r 10) ?u = (10, r)" for r by simp
  have h4: "(10::nat) \<le> 3000" by simp
  have a: "fst (authorize (example_env (Some (Response 200 (Some (JObj [(''status'', JNum 204)])))) 10)
         example_vendor) = Inl (UserError NO_CONFIGURATION)"
    using authorize_rejections [OF h1 h2 h3 h4] by (simp add: own_prop_def)
  have b: "fst (authorize (example_env (Some (Response 500 None)) 10) example_vendor)
       = Inl (HttpError (Response 500 None))"
    using authorize_rejections [OF h1 h2 h3 h4, of "Some (Response 500 None)"] by simp
  have c: "fst (authorize (example_env None 10) example_vendor) = Inl (HostError ''network failure'')"
    using authorize_rejections [OF h1 h2 h3 h4, of None] by simp
  show ?thesis using a b c by simp
qed

text \<open>
  The claim as stated fails: a response with HTTP status 204 has no body to parse, and
  \<^verbatim>\<open>authorize\<close> rejects with the parse error of \<^verbatim>\<open>json()\<close>.
\<close>

theorem authorize_rejections_counterexample:
  "fst (authorize (example_env (Some (Response 204 None)) 10) example_vendor) = Inl SyntaxError
   \<and> fst (authorize (example_env (Some (Response 204 None)) 10) example_vendor)
       \<noteq> Inl (UserError NO_CONFIGURATION)"
  by (simp add: authorize_def getPurchaseConfig_fetched fetchJson_def timeoutPromise_def
        AUTHORIZATION_TIMEOUT_def json_def)

text \<open>
  Claim C7. The authorization request is one \<^verbatim>\<open>fetchJson\<close> call with credentials
  included, raced against a timeout of 3000 ms. Whenever the URL steps resolve, a call of
  \<^verbatim>\<open>authorize\<close> makes exactly that one request, whatever the answer, and none again.
  When the answer takes longer than 3000 ms, \<^verbatim>\<open>authorize\<close> rejects with the timeout
  error, and neither the document nor any other part of the state but the record of
  calls has changed.
\<close>

theorem authorization_timeout:
  assumes "buildUrl env (JStr (purchaseConfigBaseUrl st)) False = Inr u1"
      and "getLoginUrl env u1 = Inr u2"
      and "fetch env u2 = (t, x)"
  shows "filter is_fetch (calls (snd (authorize_settled env st)))
           = filter is_fetch (calls st) @ [CallFetchJson u2 ''include'']
       \<and> AUTHORIZATION_TIMEOUT = 3000
       \<and> (3000 < t \<longrightarrow>
            authorize env st =
              (Inl (UserError ''timeout''), Nothing,
               st\<lparr>calls := calls st @ [CallBuildUrl (JStr (purchaseConfigBaseUrl st)) False,
                                        CallGetLoginUrl u1, CallFetchJson u2 ''include'']\<rparr>)
            \<and> document (snd (authorize_settled env st)) = document st
            \<and> filter is_dom_call (calls (snd (authorize_settled env st)))
                = filter is_dom_call (calls st))"
proof -
  have a: "authorize env st =
           (Inl (UserError ''timeout''), Nothing, st\<lparr>calls := calls st @ round_trip st u1 u2\<rparr>)"
    if "3000 < t"
    using assms that
    by (cases x)
       (simp_all add: authorize_def getPurchaseConfig_fetched fetchJson_def timeoutPromise_def
        AUTHORIZATION_TIMEOUT_def)
  have f: "filter is_fetch (calls (snd (authorize_settled env st)))
           = filter is_fetch (calls st) @ [CallFetchJson u2 ''include'']"
    using assms(1,2)
    by (simp add: fetches_authorize_settled getPurchaseConfig_fetched round_trip_def)
  show ?thesis
    using a f
    by (simp add: authorize_settled_def run_deferred_def round_trip_def AUTHORIZATION_TIMEOUT_def)
qed

theorem authorization_timeout_witness:
  "authorize (example_env (Some (Response 200 (Some (JObj [(''access'', JBool True)])))) 3001)
     example_vendor
     = (Inl (UserError ''timeout''), Nothing,
        example_vendor\<lparr>calls :=
          [CallBuildUrl (JStr (purchaseConfigBaseUrl example_vendor)) False,
           CallGetLoginUrl (purchaseConfigBaseUrl example_vendor @ ''&rid=7''),
           CallFetchJson (purchaseConfigBaseUrl example_vendor @ ''&rid=7'') ''include'']\<rparr>)"
proof -
  let ?E = "example_env (Some (Response 200 (Some (JObj [(''access'', JBool True)])))) 3001"
  let ?u = "purchaseConfigBaseUrl example_vendor @ ''&rid=7''"
  have h1: "buildUrl ?E (JStr (purchaseConfigBaseUrl example_vendor)) False = Inr ?u" by simp
  have h2: "getLoginUrl ?E ?u = Inr ?u" by simp
  have h3: "fetch ?E ?u = (3001, Some (Response 200 (Some (JObj [(''access'', JBool True)]))))"
    by simp
  show ?thesis
    using authorization_timeout [OF h1 h2 h3] by simp
qed

subsection \<open>The authorization URL\<close>

text \<open>
  Claim C9, as amended. The authorization URL is the fixed base \<^verbatim>\<open>http://localhost:9000\<close>,
  whatever \<^verbatim>\<open>configUrl\<close> the adapter configuration holds, followed by the fixed path
  template with its \<^verbatim>\<open>article_url\<close>, \<^verbatim>\<open>amp_reader_id\<close> and \<^verbatim>\<open>return_url\<close> placeholders,
  and by \<^verbatim>\<open>&article_id=\<close> and the URI-encoded article id exactly when the configuration
  has a non-empty \<^verbatim>\<open>articleId\<close>. It is the first thing \<^verbatim>\<open>getPurchaseConfig_\<close> hands to
  the URL-building step, which substitutes the placeholders.
\<close>

theorem authorization_url:
  "purchaseConfigBaseUrl (constructor config doc) =
     ''http://localhost:9000/api/v1/amp/?article_url=CANONICAL_URL&amp_reader_id=READER_ID&return_url=RETURN_URL''
       @ (case articleId config of
            None \<Rightarrow> []
          | Some a \<Rightarrow> if a = [] then [] else ''&article_id='' @ encodeURIComponent a)
   \<and> take 1 (drop (length (calls st)) (calls (snd (getPurchaseConfig env st))))
       = [CallBuildUrl (JStr (purchaseConfigBaseUrl st)) False]"
  by (simp add: constructor_def getConfigUrl_def CONFIG_URL_def CONFIG_BASE_PATH_def
      getPurchaseConfig_def Let_def split: option.splits sum.splits)

theorem authorization_url_witness:
  "purchaseConfigBaseUrl (constructor (example_config\<lparr>configUrl := None\<rparr>) example_document) =
     ''http://localhost:9000/api/v1/amp/?article_url=CANONICAL_URL&amp_reader_id=READER_ID&return_url=RETURN_URL&article_id=a%20b%2F1''
   \<and> purchaseConfigBaseUrl (constructor (example_config\<lparr>articleId := None\<rparr>) example_document) =
     ''http://localhost:9000/api/v1/amp/?article_url=CANONICAL_URL&amp_reader_id=READER_ID&return_url=RETURN_URL''"
  using authorization_url [of "example_config\<lparr>configUrl := None\<rparr>" example_document example_vendor
          "example_env None 0"]
        authorization_url [of "example_config\<lparr>articleId := None\<rparr>" example_document example_vendor
          "example_env None 0"]
  by (simp add: example_config_def encodeURIComponent_example)

text \<open>
  The claim as stated fails: with \<^verbatim>\<open>configUrl\<close> configured, the URL still starts with the
  default base.
\<close>

theorem authorization_url_counterexample:
  "configUrl example_config = Some ''https://wallet.example''
   \<and> purchaseConfigBaseUrl (constructor example_config example_document) =
     ''http://localhost:9000/api/v1/amp/?article_url=CANONICAL_URL&amp_reader_id=READER_ID&return_url=RETURN_URL&article_id=a%20b%2F1''
   \<and> purchaseConfigBaseUrl (constructor example_config example_document) \<noteq>
     ''https://wallet.example/api/v1/amp/?article_url=CANONICAL_URL&amp_reader_id=READER_ID&return_url=RETURN_URL&article_id=a%20b%2F1''"
  by (simp add: constructor_def getConfigUrl_def CONFIG_URL_def CONFIG_BASE_PATH_def
      example_config_def encodeURIComponent_example)

subsection \<open>The dialog element\<close>

text \<open>
  Claim C10. Without an element of id \<^verbatim>\<open>amp-access-fewcents-dialog\<close> in the document,
  looking the container up throws the user assertion error, and so does every operation
  that touches the container: rendering the overlay throws it before it changes anything,
  and the mutator of a non-empty \<^verbatim>\<open>emptyContainer_\<close> throws it without removing anything
  from the document.
\<close>

theorem container_required:
  assumes "document st ''amp-access-fewcents-dialog'' = None"
  shows "getContainer st = Inl (UserError ''No element found with id amp-access-fewcents-dialog'')
       \<and> renderContainer st = Inl (UserError ''No element found with id amp-access-fewcents-dialog'')
       \<and> renderPurchaseOverlay st =
           (Some (UserError ''No element found with id amp-access-fewcents-dialog''), st)
       \<and> fst (emptyContainer_mutator st) =
           Some (UserError ''No element found with id amp-access-fewcents-dialog'')
       \<and> document (snd (emptyContainer_mutator st)) = document st
       \<and> calls (snd (emptyContainer_mutator st)) = calls st
       \<and> (\<not> containerEmpty st \<longrightarrow>
            unhandled (emptyContainer_settled st) =
              unhandled st @ [UserError ''No element found with id amp-access-fewcents-dialog'']
            \<and> document (emptyContainer_settled st) = document st
            \<and> calls (emptyContainer_settled st) = calls st)"
proof -
  have g: "getContainer s = Inl (UserError ''No element found with id amp-access-fewcents-dialog'')"
    if "document s = document st" for s
    using assms that by (simp add: getContainer_absent)
  have m: "emptyContainer_mutator s =
      (Some (UserError ''No element found with id amp-access-fewcents-dialog''),
       s\<lparr>containerEmpty := True, innerContainer := None\<rparr>)"
    if "document s = document st" for s
    using g [of "s\<lparr>containerEmpty := True, innerContainer := None\<rparr>"] that
    by (simp add: emptyContainer_mutator_def Let_def)
  have s: "unhandled (emptyContainer_settled st) =
              unhandled st @ [UserError ''No element found with id amp-access-fewcents-dialog'']
            \<and> document (emptyContainer_settled st) = document st
            \<and> calls (emptyContainer_settled st) = calls st"
    if ne: "\<not> containerEmpty st"
  proof -
    obtain s1 where e: "emptyContainer st = (AfterMutate, s1)"
      using ne by (simp add: emptyContainer_def Let_def)
    have d: "document s1 = document st" "calls s1 = calls st" "unhandled s1 = unhandled st"
      using e by (auto simp add: emptyContainer_def dispose_def Let_def split: option.splits if_splits)
    show ?thesis
      by (simp add: emptyContainer_settled_def e m [OF d(1)] report_def d)
  qed
  show ?thesis
    using g [of st] m [of st] s assms
    by (simp add: renderContainer_def renderPurchaseOverlay_absent)
qed

theorem container_required_witness:
  "renderPurchaseOverlay (constructor example_config Map.empty) =
     (Some (UserError ''No element found with id amp-access-fewcents-dialog''),
      constructor example_config Map.empty)
   \<and> unhandled (emptyContainer_settled ((constructor example_config Map.empty)\<lparr>containerEmpty := False\<rparr>))
       = [UserError ''No element found with id amp-access-fewcents-dialog'']"
  using container_required [of "constructor example_config Map.empty"]
    container_required [of "(constructor example_config Map.empty)\<lparr>containerEmpty := False\<rparr>"]
  by (simp add: constructor_def)

subsection \<open>The price line\<close>

text \<open>
  Claim C4 does not hold of the code. After a 402 answer whose body is not JSON the
  purchase config is \<^verbatim>\<open>undefined\<close>, and rendering throws a \<^verbatim>\<open>TypeError\<close> where it builds the
  price line: the currency handed to \<^verbatim>\<open>Intl.NumberFormat\<close> is \<^verbatim>\<open>undefined\<close>. No overlay
  is appended, the container stays empty, and nothing catches the error.
\<close>

theorem render_undefined_config_throws:
  "authorize_settled (example_env (Some (Response 402 None)) 10) example_vendor =
     (Inr (JObj [(''access'', JBool False)]),
      example_vendor\<lparr>purchaseConfig := JUndefined,
        innerContainer := Some (Element ''div'' ''amp-access-fewcents-container'' [] []),
        calls := round_trip example_vendor (purchaseConfigBaseUrl example_vendor @ ''&rid=7'')
                   (purchaseConfigBaseUrl example_vendor @ ''&rid=7''),
        unhandled := [TypeError]\<rparr>)"
proof -
  let ?E = "example_env (Some (Response 402 None)) 10"
  let ?u = "purchaseConfigBaseUrl example_vendor @ ''&rid=7''"
  have a: "authorize ?E example_vendor =
      (Inr (JObj [(''access'', JBool False)]), Render,
       example_vendor\<lparr>calls := round_trip example_vendor ?u ?u, purchaseConfig := JUndefined\<rparr>)"
    by (simp add: authorize_def getPurchaseConfig_fetched fetchJson_def timeoutPromise_def
        AUTHORIZATION_TIMEOUT_def json_def emptyContainer_def)
  have p: "price_text JUndefined = Inl TypeError"
    by (simp add: price_text_def NumberFormat_currency_def)
  show ?thesis
    by (simp add: authorize_settled_def a run_deferred_def renderPurchaseOverlay_throws p report_def)
qed

text \<open>
  More generally, rendering throws whenever the currency is missing, whatever else the
  purchase config holds; with a currency and no amount it completes, and the price line
  is the formatter's text for \<^verbatim>\<open>undefined\<close>.
\<close>

lemma render_missing_currency_throws:
  assumes "document st ''amp-access-fewcents-dialog'' \<noteq> None"
      and "opt_prop (opt_prop (opt_prop (purchaseConfig st) ''purchase_options'') ''price'')
             ''currency'' = JUndefined"
  shows "fst (renderPurchaseOverlay st) = Some TypeError
       \<and> document (snd (renderPurchaseOverlay st)) = document st
       \<and> listeners (snd (renderPurchaseOverlay st)) = listeners st"
proof -
  have "price_text (purchaseConfig st) = Inl TypeError"
    using assms(2) by (simp add: price_text_def NumberFormat_currency_def)
  then show ?thesis
    using renderPurchaseOverlay_throws [OF assms(1)] by simp
qed

lemma render_missing_amount_completes:
  assumes "document st ''amp-access-fewcents-dialog'' = Some cs"
      and "purchaseConfig st = JObj kvs"
      and "own_prop kvs ''purchase_options'' = JObj po"
      and "own_prop po ''price'' = JObj pr"
      and "own_prop pr ''currency'' = JStr c"
      and "well_formed_currency_code c"
      and "own_prop pr ''amount'' = JUndefined"
  shows "fst (renderPurchaseOverlay st) = None
       \<and> (\<exists>ov. document (snd (renderPurchaseOverlay st)) =
                  (document st)(''amp-access-fewcents-dialog'' \<mapsto> cs @ [ov])
               \<and> texts_of_class ''amp-access-fewcents-price'' ov
                   = [ [CurrencyFormat ''en-EN'' c JUndefined, Lit ''/article'']])"
proof -
  have p: "price_text (purchaseConfig st) = Inr [CurrencyFormat ''en-EN'' c JUndefined, Lit ''/article'']"
    using assms(2-7) by (simp add: price_text_def NumberFormat_currency_def format_def)
  show ?thesis
    using renderPurchaseOverlay_completes(1,2) [OF assms(1) p] by blast
qed

text \<open>
  Claim C5, as amended. The price line is formatted with the fixed locale tag
  \<^verbatim>\<open>en-EN\<close>, not with the locale of the adapter configuration, and the price is read from
  \<^verbatim>\<open>purchase_options.price\<close>, with \<^verbatim>\<open>purchase_options\<close> taken as one option object. For
  every stored purchase config whose \<^verbatim>\<open>purchase_options\<close> is an object with a \<^verbatim>\<open>price\<close>
  that has a well-formed currency code and a numeric amount, rendering completes and the
  text of the price element of the appended overlay is that amount in that currency as
  \<^verbatim>\<open>Intl.NumberFormat('en-EN', ...)\<close> formats it, followed by \<^verbatim>\<open>/article\<close>.
\<close>

theorem price_line:
  assumes "document st ''amp-access-fewcents-dialog'' = Some cs"
      and "purchaseConfig st = JObj kvs"
      and "own_prop kvs ''purchase_options'' = JObj po"
      and "own_prop po ''price'' = JObj pr"
      and "own_prop pr ''currency'' = JStr c"
      and "well_formed_currency_code c"
      and "own_prop pr ''amount'' = JNum a"
  shows "fst (renderPurchaseOverlay st) = None
       \<and> (\<exists>ov. document (snd (renderPurchaseOverlay st)) =
                  (document st)(''amp-access-fewcents-dialog'' \<mapsto> cs @ [ov])
               \<and> texts_of_class ''amp-access-fewcents-price'' ov
                   = [ [CurrencyFormat ''en-EN'' c (JNum a), Lit ''/article'']])"
proof -
  have p: "price_text (purchaseConfig st) = Inr [CurrencyFormat ''en-EN'' c (JNum a), Lit ''/article'']"
    using price_text_well_formed [OF assms(3-7)] assms(2) by simp
  show ?thesis
    using renderPurchaseOverlay_completes(1,2) [OF assms(1) p] by blast
qed

theorem price_line_witness:
  "\<exists>ov. document (snd (renderPurchaseOverlay (example_vendor\<lparr>purchaseConfig := example_purchase_config\<rparr>)))
           = example_document(''amp-access-fewcents-dialog'' \<mapsto> [ov])
        \<and> texts_of_class ''amp-access-fewcents-price'' ov
            = [ [CurrencyFormat ''en-EN'' ''EUR'' (JNum 5), Lit ''/article'']]"
proof -
  let ?st = "example_vendor\<lparr>purchaseConfig := example_purchase_config\<rparr>"
  have h1: "document ?st ''amp-access-fewcents-dialog'' = Some []" by simp
  have h2: "purchaseConfig ?st =
     JObj [(''identify_url'', JStr ''https://wallet.example/identify''),
           (''purchase_options'',
            JObj [(''purchase_url'', JStr ''https://wallet.example/buy''),
                  (''price'', JObj [(''amount'', JNum 5), (''currency'', JStr ''EUR'')])])]"
    by (simp add: example_purchase_config_def)
  have h3: "own_prop [(''identify_url'', JStr ''https://wallet.example/identify''),
           (''purchase_options'',
            JObj [(''purchase_url'', JStr ''https://wallet.example/buy''),
                  (''price'', JObj [(''amount'', JNum 5), (''currency'', JStr ''EUR'')])])]
          ''purchase_options''
       = JObj [(''purchase_url'', JStr ''https://wallet.example/buy''),
                  (''price'', JObj [(''amount'', JNum 5), (''currency'', JStr ''EUR'')])]"
    by (simp add: own_prop_def)
  have h4: "own_prop [(''purchase_url'', JStr ''https://wallet.example/buy''),
                  (''price'', JObj [(''amount'', JNum 5), (''currency'', JStr ''EUR'')])] ''price''
       = JObj [(''amount'', JNum 5), (''currency'', JStr ''EUR'')]"
    by (simp add: own_prop_def)
  have h5: "own_prop [(''amount'', JNum 5), (''currency'', JStr ''EUR'')] ''currency'' = JStr ''EUR''"
    by (simp add: own_prop_def)
  have h6: "well_formed_currency_code ''EUR''"
    by (simp add: well_formed_currency_code_def ascii_letter_def)
  have h7: "own_prop [(''amount'', JNum 5), (''currency'', JStr ''EUR'')] ''amount'' = JNum 5"
    by (simp add: own_prop_def)
  show ?thesis
    using price_line [OF h1 h2 h3 h4 h5 h6 h7] by simp
qed

text \<open>
  The claim as stated fails: with the locale \<^verbatim>\<open>de\<close> configured, the price is still
  formatted for \<^verbatim>\<open>en-EN\<close>.
\<close>

theorem price_line_counterexample:
  "currentLocale example_vendor = ''de''
   \<and> rendered_prices (snd (authorize_settled
        (example_env (Some (Response 402 (Some example_purchase_config))) 10) example_vendor))
      = [ [CurrencyFormat ''en-EN'' ''EUR'' (JNum 5), Lit ''/article'']]
   \<and> rendered_prices (snd (authorize_settled
        (example_env (Some (Response 402 (Some example_purchase_config))) 10) example_vendor))
      \<noteq> [ [CurrencyFormat (currentLocale example_vendor) ''EUR'' (JNum 5), Lit ''/article'']]"
proof -
  let ?st = "example_vendor\<lparr>calls := round_trip example_vendor
           (purchaseConfigBaseUrl example_vendor @ ''&rid=7'')
           (purchaseConfigBaseUrl example_vendor @ ''&rid=7''),
         purchaseConfig := example_purchase_config\<rparr>"
  have d: "document ?st ''amp-access-fewcents-dialog'' = Some []" by simp
  have p: "price_text (purchaseConfig ?st)
             = Inr [CurrencyFormat ''en-EN'' ''EUR'' (JNum 5), Lit ''/article'']"
    by (simp add: example_price_text)
  obtain ov where ov: "document (snd (renderPurchaseOverlay ?st)) =
                  (document ?st)(''amp-access-fewcents-dialog'' \<mapsto> [] @ [ov])"
      "texts_of_class ''amp-access-fewcents-price'' ov
         = [ [CurrencyFormat ''en-EN'' ''EUR'' (JNum 5), Lit ''/article'']]"
    using renderPurchaseOverlay_completes(2) [OF d p] by blast
  have f: "fst (renderPurchaseOverlay ?st) = None"
    using renderPurchaseOverlay_completes(1) [OF d p] .
  have s: "snd (authorize_settled
        (example_env (Some (Response 402 (Some example_purchase_config))) 10) example_vendor)
      = snd (renderPurchaseOverlay ?st)"
    using f by (cases "renderPurchaseOverlay ?st")
      (simp add: authorize_settled_def example_denial run_deferred_def report_def)
  show ?thesis
    by (simp add: s rendered_prices_def dialog_children_def ov TAG_def)
qed

subsection \<open>Clicks\<close>

text \<open>
  Claim C8. Once the overlay is rendered, one listener is registered for the purchase
  button and one for the already-purchased link. A click on the purchase button calls
  \<^verbatim>\<open>handlePurchase_\<close> with the \<^verbatim>\<open>purchase_url\<close> of the purchase option, a click on the link
  calls it with the \<^verbatim>\<open>identify_url\<close> of the purchase config and the flag
  \<^verbatim>\<open>'alreadyPurchased'\<close>. Either click prevents the default action of the event, hands the
  URL to the URL-building step, with no login-URL step, and when that resolves calls
  \<^verbatim>\<open>loginWithUrl\<close> once, with the URL it resolved to.
\<close>

theorem purchase_handoff:
  assumes "renderPurchaseOverlay st = (None, st')"
  shows "listeners st' = listeners st @
           [(registered st, PurchaseClick),
            (Suc (registered st), AlreadyPurchasedClick (opt_prop (purchaseConfig st) ''identify_url''))]
       \<and> purchaseConfig st' = purchaseConfig st
       \<and> (\<forall>s. purchaseConfig s = purchaseConfig st \<longrightarrow>
            listener_args PurchaseClick s =
              Inr [opt_prop (opt_prop (purchaseConfig st) ''purchase_options'') ''purchase_url'']
            \<and> listener_args (AlreadyPurchasedClick (opt_prop (purchaseConfig st) ''identify_url'')) s =
                Inr [opt_prop (purchaseConfig st) ''identify_url'', JStr ''alreadyPurchased''])
       \<and> (\<forall>s h u. purchaseConfig s = purchaseConfig st
                 \<and> (h = PurchaseClick
                      \<and> u = opt_prop (opt_prop (purchaseConfig st) ''purchase_options'') ''purchase_url''
                    \<or> h = AlreadyPurchasedClick (opt_prop (purchaseConfig st) ''identify_url'')
                      \<and> u = opt_prop (purchaseConfig st) ''identify_url'') \<longrightarrow>
            defaultPrevented (fst (click env h ev s))
            \<and> calls (snd (click env h ev s)) =
                 calls s @ [CallPreventDefault, CallBuildUrl u False]
                   @ (case buildUrl env u False of Inl e \<Rightarrow> [] | Inr url \<Rightarrow> [CallLoginWithUrl url]))"
proof -
  obtain cs p where d: "document st ''amp-access-fewcents-dialog'' = Some cs"
      and p: "price_text (purchaseConfig st) = Inr p"
    using renderPurchaseOverlay_completed [OF assms] by blast
  obtain kvs where k: "purchaseConfig st = JObj kvs"
    using price_text_object [OF p] by blast
  obtain po where o: "own_prop kvs ''purchase_options'' = JObj po"
    using price_text_options p k by auto
  have s: "snd (renderPurchaseOverlay st) = st'" using assms by simp
  have l: "listeners st' = listeners st @
           [(registered st, PurchaseClick),
            (Suc (registered st), AlreadyPurchasedClick (opt_prop (purchaseConfig st) ''identify_url''))]"
    using renderPurchaseOverlay_completes(3) [OF d p] s by simp
  have c: "purchaseConfig st' = purchaseConfig st"
    using renderPurchaseOverlay_completes(11) [OF d p] s by simp
  have a1: "listener_args PurchaseClick s =
           Inr [opt_prop (opt_prop (purchaseConfig st) ''purchase_options'') ''purchase_url'']"
    if "purchaseConfig s = purchaseConfig st" for s
    using that by (simp add: listener_args_def k o)
  have a2: "listener_args (AlreadyPurchasedClick (opt_prop (purchaseConfig st) ''identify_url'')) s =
           Inr [opt_prop (purchaseConfig st) ''identify_url'', JStr ''alreadyPurchased'']" for s
    by (simp add: listener_args_def)
  show ?thesis
    using l c a1 a2 click_effect [OF a1] click_effect [OF a2] by blast
qed

theorem purchase_handoff_witness:
  "calls (snd (click (example_env None 0) PurchaseClick \<lparr>defaultPrevented = False\<rparr>
        (snd (renderPurchaseOverlay (example_vendor\<lparr>purchaseConfig := example_purchase_config\<rparr>)))))
     = [CallAppendChild ''amp-access-fewcents-dialog'', CallPreventDefault,
        CallBuildUrl (JStr ''https://wallet.example/buy'') False,
        CallLoginWithUrl ''https://wallet.example/buy&rid=7'']
   \<and> calls (snd (click (example_env None 0)
        (AlreadyPurchasedClick (JStr ''https://wallet.example/identify''))
        \<lparr>defaultPrevented = False\<rparr>
        (snd (renderPurchaseOverlay (example_vendor\<lparr>purchaseConfig := example_purchase_config\<rparr>)))))
     = [CallAppendChild ''amp-access-fewcents-dialog'', CallPreventDefault,
        CallBuildUrl (JStr ''https://wallet.example/identify'') False,
        CallLoginWithUrl ''https://wallet.example/identify&rid=7'']
   \<and> defaultPrevented (fst (click (example_env None 0) PurchaseClick \<lparr>defaultPrevented = False\<rparr>
        (snd (renderPurchaseOverlay (example_vendor\<lparr>purchaseConfig := example_purchase_config\<rparr>)))))"
proof -
  let ?st = "example_vendor\<lparr>purchaseConfig := example_purchase_config\<rparr>"
  have d: "document ?st ''amp-access-fewcents-dialog'' = Some []" by simp
  have p: "price_text (purchaseConfig ?st)
             = Inr [CurrencyFormat ''en-EN'' ''EUR'' (JNum 5), Lit ''/article'']"
    by (simp add: example_price_text)
  have r: "renderPurchaseOverlay ?st = (None, snd (renderPurchaseOverlay ?st))"
    using renderPurchaseOverlay_completes(1) [OF d p]
    by (cases "renderPurchaseOverlay ?st") simp
  have c: "calls (snd (renderPurchaseOverlay ?st)) = [CallAppendChild ''amp-access-fewcents-dialog'']"
    using renderPurchaseOverlay_completes(8) [OF d p] by simp
  have u: "opt_prop (opt_prop example_purchase_config ''purchase_options'') ''purchase_url''
             = JStr ''https://wallet.example/buy''"
      "opt_prop example_purchase_config ''identify_url'' = JStr ''https://wallet.example/identify''"
    by (simp_all add: example_purchase_config_def own_prop_def)
  show ?thesis
    using purchase_handoff [OF r, of "example_env None 0" "\<lparr>defaultPrevented = False\<rparr>"]
    by (simp add: c u)
qed

subsection \<open>One overlay, one listener for each button\<close>

text \<open>
  Claim C6, as amended. Take any run of \<^verbatim>\<open>authorize\<close> calls, whatever their answers, each
  with its deferred clearing and rendering done before the next call begins, from a
  vendor whose dialog container holds no overlay at the start. Then at most one overlay
  is in the container and at most one click listener is registered for each button, also
  while the deferred work of a further call is pending. \<^verbatim>\<open>emptyContainer_\<close> on an empty
  container resolves at once and changes nothing; so does a second call made after the
  mutation of the first has run, and the two together remove children from the document
  at most once. On a rendered overlay \<^verbatim>\<open>emptyContainer_\<close> calls both disposers and sets both
  fields to null, and every listener ever registered is registered still or was disposed
  of, once. After any number of consecutive 402 answers that each bring a purchase config
  the price line can be built from, with the dialog element in the document, exactly one
  overlay and one listener for each button are there.
\<close>

theorem listeners_never_accumulate:
  assumes "overlays (constructor config doc) = []"
      and "st = authorize_all envs (constructor config doc)"
  shows "at_most_one st
       \<and> (\<forall>env. at_most_one (snd (snd (authorize env st)))
                \<and> at_most_one (snd (authorize_settled env st)))
       \<and> (containerEmpty st \<longrightarrow> emptyContainer st = (Resolved, st))
       \<and> emptyContainer (emptyContainer_settled st) = (Resolved, emptyContainer_settled st)
       \<and> length (filter is_dom_call (calls (emptyContainer_settled st)))
           \<le> Suc (length (filter is_dom_call (calls st)))
       \<and> (\<not> containerEmpty st \<longrightarrow>
             length (overlays st) = 1
             \<and> map Some (purchase_listeners st) = [purchaseButtonListener st]
             \<and> map Some (alreadyPurchased_listeners st) = [alreadyPurchasedListener st]
             \<and> disposed (snd (emptyContainer st))
                 = disposed st @ purchase_listeners st @ alreadyPurchased_listeners st
             \<and> listeners (snd (emptyContainer st)) = []
             \<and> purchaseButtonListener (snd (emptyContainer st)) = None
             \<and> alreadyPurchasedListener (snd (emptyContainer st)) = None)
       \<and> distinct (disposed st)
       \<and> (\<forall>l<registered st. (l \<in> set (disposed st)) \<noteq> (l \<in> fst ` set (listeners st)))
       \<and> (envs \<noteq> [] \<and> doc ''amp-access-fewcents-dialog'' \<noteq> None
            \<and> (\<forall>e \<in> set envs. renderable_denial e (purchaseConfigBaseUrl (constructor config doc)))
           \<longrightarrow> length (overlays st) = 1 \<and> length (purchase_listeners st) = 1
               \<and> length (alreadyPurchased_listeners st) = 1)"
proof -
  have c0: "consistent (constructor config doc)"
    using consistent_constructor [OF assms(1)] .
  have c: "consistent st"
    using consistent_authorize_all [OF c0] assms(2) by simp
  have p: "at_most_one (snd (snd (authorize env st))) \<and> at_most_one (snd (authorize_settled env st))"
    for env
    using at_most_one_authorize [OF c] at_most_one_consistent [OF consistent_authorize_settled [OF c]]
    by simp
  have r: "length (overlays st) = 1
             \<and> map Some (purchase_listeners st) = [purchaseButtonListener st]
             \<and> map Some (alreadyPurchased_listeners st) = [alreadyPurchasedListener st]
             \<and> disposed (snd (emptyContainer st))
                 = disposed st @ purchase_listeners st @ alreadyPurchased_listeners st
             \<and> listeners (snd (emptyContainer st)) = []
             \<and> purchaseButtonListener (snd (emptyContainer st)) = None
             \<and> alreadyPurchasedListener (snd (emptyContainer st)) = None"
    if ne: "\<not> containerEmpty st"
  proof -
    obtain a b where f:
      "purchaseButtonListener st = Some a" "alreadyPurchasedListener st = Some b"
      "listeners (snd (emptyContainer st)) = []"
      "disposed (snd (emptyContainer st)) = disposed st @ [a, b]"
      "purchaseButtonListener (snd (emptyContainer st)) = None"
      "alreadyPurchasedListener (snd (emptyContainer st)) = None"
      using emptyContainer_nonempty [OF c ne] by metis
    have q: "map Some (purchase_listeners st) = [purchaseButtonListener st]"
        "map Some (alreadyPurchased_listeners st) = [alreadyPurchasedListener st]"
        "length (overlays st) = 1"
      using c ne by (simp_all add: consistent_def)
    have "purchase_listeners st = [a]" "alreadyPurchased_listeners st = [b]"
      using q f(1,2) by (auto simp add: map_eq_Cons_conv)
    then show ?thesis using f q by simp
  qed
  have e: "length (overlays st) = 1 \<and> length (purchase_listeners st) = 1
               \<and> length (alreadyPurchased_listeners st) = 1"
    if h: "envs \<noteq> [] \<and> doc ''amp-access-fewcents-dialog'' \<noteq> None
            \<and> (\<forall>e \<in> set envs. renderable_denial e (purchaseConfigBaseUrl (constructor config doc)))"
  proof -
    have d: "document (constructor config doc) ''amp-access-fewcents-dialog'' \<noteq> None"
      using h by (simp add: constructor_def)
    have "\<not> containerEmpty st"
      using renderable_denials_render [OF c0 d] h assms(2) by simp
    then show ?thesis using rendered_counts [OF c] by simp
  qed
  show ?thesis
    using at_most_one_consistent [OF c] p r e consistent_disposed [OF c]
      emptyContainer_after_settled [of st] emptyContainer_settled_removals [of st]
    by (simp add: emptyContainer_def)
qed

theorem listeners_never_accumulate_witness:
  "overlays (constructor example_config example_document) = []
   \<and> length (overlays (authorize_all
        [example_env (Some (Response 402 (Some example_purchase_config))) 10,
         example_env (Some (Response 402 (Some example_purchase_config))) 10]
        (constructor example_config example_document))) = 1
   \<and> length (purchase_listeners (authorize_all
        [example_env (Some (Response 402 (Some example_purchase_config))) 10,
         example_env (Some (Response 402 (Some example_purchase_config))) 10]
        (constructor example_config example_document))) = 1
   \<and> length (alreadyPurchased_listeners (authorize_all
        [example_env (Some (Response 402 (Some example_purchase_config))) 10,
         example_env (Some (Response 402 (Some example_purchase_config))) 10]
        (constructor example_config example_document))) = 1"
proof -
  let ?E = "example_env (Some (Response 402 (Some example_purchase_config))) 10"
  have o: "overlays (constructor example_config example_document) = []"
    by (simp add: overlays_def dialog_children_def constructor_def example_document_def TAG_def)
  define st where "st = authorize_all [?E, ?E] (constructor example_config example_document)"
  have h: "[?E, ?E] \<noteq> [] \<and> example_document ''amp-access-fewcents-dialog'' \<noteq> None
       \<and> (\<forall>e \<in> set [?E, ?E].
             renderable_denial e (purchaseConfigBaseUrl (constructor example_config example_document)))"
    by (simp add: example_renderable_denial)
  have "length (overlays st) = 1 \<and> length (purchase_listeners st) = 1
               \<and> length (alreadyPurchased_listeners st) = 1"
    using listeners_never_accumulate [OF o st_def] h by blast
  then show ?thesis
    using o unfolding st_def by blast
qed

text \<open>
  The claim as stated fails where calls are not kept apart. Two calls of
  \<^verbatim>\<open>emptyContainer_\<close> in a row on a rendered overlay, the second before the mutation of the
  first has run, both find the container non-empty and both schedule a mutation, so that
  children are removed from the document twice. And two 402 answers handled before the
  rendering of the first has run leave two overlays in the container, and two listeners
  of the purchase kind.
\<close>

theorem listeners_never_accumulate_counterexample:
  "fst (emptyContainer (snd (authorize_settled
        (example_env (Some (Response 402 (Some example_purchase_config))) 10) example_vendor)))
     = AfterMutate
   \<and> fst (emptyContainer (snd (emptyContainer (snd (authorize_settled
        (example_env (Some (Response 402 (Some example_purchase_config))) 10) example_vendor)))))
     = AfterMutate
   \<and> calls (snd (emptyContainer_mutator (snd (emptyContainer_mutator
        (snd (emptyContainer (snd (emptyContainer (snd (authorize_settled
          (example_env (Some (Response 402 (Some example_purchase_config))) 10)
          example_vendor))))))))))
     = calls (snd (authorize_settled
          (example_env (Some (Response 402 (Some example_purchase_config))) 10) example_vendor))
       @ [CallRemoveChildren ''amp-access-fewcents-dialog'',
          CallRemoveChildren ''amp-access-fewcents-dialog'']
   \<and> fst (snd (authorize (example_env (Some (Response 402 (Some example_purchase_config))) 10)
          example_vendor)) = Render
   \<and> fst (snd (authorize (example_env (Some (Response 402 (Some example_purchase_config))) 10)
          (snd (snd (authorize (example_env (Some (Response 402 (Some example_purchase_config))) 10)
             example_vendor))))) = Render
   \<and> length (overlays (run_deferred Render (run_deferred Render
        (snd (snd (authorize (example_env (Some (Response 402 (Some example_purchase_config))) 10)
          (snd (snd (authorize (example_env (Some (Response 402 (Some example_purchase_config))) 10)
             example_vendor))))))))) = 2
   \<and> purchase_listeners (run_deferred Render (run_deferred Render
        (snd (snd (authorize (example_env (Some (Response 402 (Some example_purchase_config))) 10)
          (snd (snd (authorize (example_env (Some (Response 402 (Some example_purchase_config))) 10)
             example_vendor)))))))) = [0, 2]"
proof -
  let ?E = "example_env (Some (Response 402 (Some example_purchase_config))) 10"
  define R where "R = snd (authorize_settled ?E example_vendor)"
  have n: "\<not> containerEmpty R" and d: "document R ''amp-access-fewcents-dialog'' \<noteq> None"
    using denial_renders [OF example_vendor_consistent] by (simp_all add: R_def)
  define R2 where "R2 = snd (emptyContainer (snd (emptyContainer R)))"
  have i: "fst (emptyContainer R) = AfterMutate"
      "fst (emptyContainer (snd (emptyContainer R))) = AfterMutate"
      "calls R2 = calls R" "document R2 = document R"
    using emptyContainer_in_a_row [OF n] by (simp_all add: R2_def)
  define R3 where "R3 = snd (emptyContainer_mutator R2)"
  have m1: "calls R3 = calls R @ [CallRemoveChildren ''amp-access-fewcents-dialog'']"
      "document R3 ''amp-access-fewcents-dialog'' \<noteq> None"
    using emptyContainer_mutator_removes [of R2] d i(3,4) by (simp_all add: R3_def)
  have m2: "calls (snd (emptyContainer_mutator R3)) =
      calls R @ [CallRemoveChildren ''amp-access-fewcents-dialog'',
                 CallRemoveChildren ''amp-access-fewcents-dialog'']"
    using emptyContainer_mutator_removes [OF m1(2)] m1(1) by simp
  show ?thesis
    using i(1,2) m2 reentrant_denials_duplicate_overlay
    unfolding R3_def R2_def R_def by blast
qed

end
